theory Spec2Isabelle
  imports Complex_Main "HOL-Library.Word" "HOL-Library.Sublist"
begin

section \<open>JavaScript strings and numbers\<close>

text \<open>
  A JavaScript string is a sequence of 16-bit code units, so \<open>length\<close> counts what
  \<^verbatim>\<open>.length\<close> counts and the rupee sign of the number examples is the single unit
  \<open>0x20B9\<close>. \<open>str\<close> embeds an ASCII literal.
\<close>

type_synonym jsstring = "16 word list"

definition str :: "string \<Rightarrow> jsstring" where
  "str s = map of_char s"

text \<open>
  The set matched by \<^verbatim>\<open>\s\<close> in a regular expression and stripped by \<^verbatim>\<open>trim()\<close> and by
  the string-to-number conversion: WhiteSpace and LineTerminator of ECMAScript.
\<close>

definition isWhiteSpace :: "16 word \<Rightarrow> bool" where
  "isWhiteSpace c =
     (c = 0x09 \<or> c = 0x0A \<or> c = 0x0B \<or> c = 0x0C \<or> c = 0x0D \<or> c = 0x20 \<or> c = 0xA0
      \<or> c = 0x1680 \<or> (0x2000 \<le> c \<and> c \<le> 0x200A) \<or> c = 0x2028 \<or> c = 0x2029
      \<or> c = 0x202F \<or> c = 0x205F \<or> c = 0x3000 \<or> c = 0xFEFF)"

definition trimStart :: "jsstring \<Rightarrow> jsstring" where
  "trimStart s = dropWhile isWhiteSpace s"

definition trim :: "jsstring \<Rightarrow> jsstring" where
  "trim s = rev (dropWhile isWhiteSpace (rev (dropWhile isWhiteSpace s)))"

definition isDigit :: "16 word \<Rightarrow> bool" where
  "isDigit c = (0x30 \<le> c \<and> c \<le> 0x39)"

text \<open>Value of a digit in a radix up to 16; \<open>None\<close> when the unit is no such digit.\<close>

definition digitOf :: "nat \<Rightarrow> 16 word \<Rightarrow> nat option" where
  "digitOf radix c =
     (let v = (if 0x30 \<le> c \<and> c \<le> 0x39 then Some (unat c - 48)
               else if 0x61 \<le> c \<and> c \<le> 0x66 then Some (unat c - 87)
               else if 0x41 \<le> c \<and> c \<le> 0x46 then Some (unat c - 55)
               else None)
      in case v of None \<Rightarrow> None | Some d \<Rightarrow> if d < radix then Some d else None)"

definition digitsVal :: "nat \<Rightarrow> jsstring \<Rightarrow> nat" where
  "digitsVal radix ds = foldl (\<lambda>acc c. radix * acc + (case digitOf radix c of None \<Rightarrow> 0 | Some d \<Rightarrow> d)) 0 ds"

text \<open>
  A JavaScript number is a binary64 value. \<open>Finite r\<close> is the finite double whose value
  is the rational \<open>r\<close> (\<open>Finite 0\<close> is \<open>+0\<close>), \<open>NegZero\<close> is \<open>-0\<close>.
\<close>

datatype jsnum = NaN | Finite rat | NegZero | PosInfinity | NegInfinity

definition negate :: "jsnum \<Rightarrow> jsnum" where
  "negate n = (case n of NaN \<Rightarrow> NaN | Finite r \<Rightarrow> if r = 0 then NegZero else Finite (- r)
                 | NegZero \<Rightarrow> Finite 0 | PosInfinity \<Rightarrow> NegInfinity | NegInfinity \<Rightarrow> PosInfinity)"

text \<open>\<^verbatim>\<open>n > k\<close> and \<^verbatim>\<open>n < k\<close> against a finite constant; both are false of NaN.\<close>

definition numGt :: "jsnum \<Rightarrow> rat \<Rightarrow> bool" where
  "numGt n k = (case n of NaN \<Rightarrow> False | Finite r \<Rightarrow> k < r | NegZero \<Rightarrow> k < 0
                  | PosInfinity \<Rightarrow> True | NegInfinity \<Rightarrow> False)"

definition numLt :: "jsnum \<Rightarrow> rat \<Rightarrow> bool" where
  "numLt n k = (case n of NaN \<Rightarrow> False | Finite r \<Rightarrow> r < k | NegZero \<Rightarrow> 0 < k
                  | PosInfinity \<Rightarrow> False | NegInfinity \<Rightarrow> True)"

text \<open>\<^verbatim>\<open>!n\<close> of a number: NaN and both zeros are falsy.\<close>

definition falsy :: "jsnum \<Rightarrow> bool" where
  "falsy n = (n = NaN \<or> n = Finite 0 \<or> n = NegZero)"

subsection \<open>Rounding to binary64\<close>

text \<open>
  \<open>toDouble a b\<close> is the Number value of the non-negative rational \<open>a / b\<close>
  (\<open>0 < b\<close>): the nearest binary64 value, ties to the even significand, subnormal
  below \<open>2^-1022\<close>, and \<open>Infinity\<close> once the rounded value reaches \<open>2^1024\<close>.
  \<open>bitlen n\<close> is the number of binary digits of \<open>n\<close>; \<open>exponentOf a b\<close> is the \<open>e\<close>
  with \<open>2^e \<le> a / b < 2^(e + 1)\<close>; \<open>roundAt a b q\<close> rounds \<open>a / b\<close> to a multiple of
  \<open>2^q\<close>.
\<close>

fun bitlen :: "nat \<Rightarrow> nat" where
  "bitlen n = (if n = 0 then 0 else Suc (bitlen (n div 2)))"

declare bitlen.simps [simp del]

definition roundHalfEven :: "nat \<Rightarrow> nat \<Rightarrow> nat" where
  "roundHalfEven num den =
     (let f = num div den; r = num mod den in
      if 2 * r < den then f
      else if den < 2 * r then f + 1
      else if even f then f else f + 1)"

definition exponentOf :: "nat \<Rightarrow> nat \<Rightarrow> int" where
  "exponentOf a b =
     (let e0 = int (bitlen a) - int (bitlen b) in
      if (if 0 \<le> e0 then b * 2 ^ nat e0 \<le> a else b \<le> a * 2 ^ nat (- e0)) then e0 else e0 - 1)"

definition roundAt :: "nat \<Rightarrow> nat \<Rightarrow> int \<Rightarrow> jsnum" where
  "roundAt a b q =
     (if 0 \<le> q then
        (let n = roundHalfEven a (b * 2 ^ nat q) in
         if 2 ^ 1024 \<le> n * 2 ^ nat q then PosInfinity else Finite (of_nat (n * 2 ^ nat q)))
      else Finite (of_nat (roundHalfEven (a * 2 ^ nat (- q)) b) / 2 ^ nat (- q)))"

definition toDouble :: "nat \<Rightarrow> nat \<Rightarrow> jsnum" where
  "toDouble a b =
     (if a = 0 then Finite 0 else roundAt a b (max (exponentOf a b) (- 1022) - 52))"

text \<open>The Number value of the decimal \<open>m \<times> 10^e\<close>.\<close>

definition decimalToDouble :: "nat \<Rightarrow> int \<Rightarrow> jsnum" where
  "decimalToDouble m e =
     (if 0 \<le> e then toDouble (m * 10 ^ nat e) 1 else toDouble m (10 ^ nat (- e)))"

subsection \<open>Strings to numbers\<close>

text \<open>ExponentPart of a numeric string: empty, or \<^verbatim>\<open>e\<close>/\<^verbatim>\<open>E\<close>, an optional sign and digits.\<close>

definition exponentPart :: "jsstring \<Rightarrow> int option" where
  "exponentPart r =
     (case r of
        [] \<Rightarrow> Some 0
      | c # r1 \<Rightarrow>
          if c = 0x65 \<or> c = 0x45 then
            (case r1 of
               [] \<Rightarrow> None
             | s # r2 \<Rightarrow>
                 if s = 0x2B then
                   (if r2 \<noteq> [] \<and> list_all isDigit r2 then Some (int (digitsVal 10 r2)) else None)
                 else if s = 0x2D then
                   (if r2 \<noteq> [] \<and> list_all isDigit r2 then Some (- int (digitsVal 10 r2)) else None)
                 else
                   (if list_all isDigit r1 then Some (int (digitsVal 10 r1)) else None))
          else None)"

text \<open>
  StrUnsignedDecimalLiteral: \<^verbatim>\<open>Infinity\<close>, digits with an optional fraction and exponent,
  or a fraction that starts with the period. The value of digits \<open>ip\<close>, fraction \<open>fp\<close>
  and exponent \<open>e\<close> is the decimal \<open>ip fp \<times> 10^(e - length fp)\<close>, rounded once.
\<close>

definition unsignedDecimal :: "jsstring \<Rightarrow> jsnum" where
  "unsignedDecimal s =
     (if s = str ''Infinity'' then PosInfinity
      else
        let ip = takeWhile isDigit s; rest = dropWhile isDigit s in
        case rest of
          [] \<Rightarrow> if ip = [] then NaN else decimalToDouble (digitsVal 10 ip) 0
        | c # r1 \<Rightarrow>
            if c = 0x2E then
              (let fp = takeWhile isDigit r1; r2 = dropWhile isDigit r1 in
               if ip = [] \<and> fp = [] then NaN
               else case exponentPart r2 of
                      None \<Rightarrow> NaN
                    | Some e \<Rightarrow> decimalToDouble (digitsVal 10 (ip @ fp)) (e - int (length fp)))
            else if ip = [] then NaN
            else case exponentPart rest of
                   None \<Rightarrow> NaN
                 | Some e \<Rightarrow> decimalToDouble (digitsVal 10 ip) e)"

definition nonDecimal :: "nat \<Rightarrow> jsstring \<Rightarrow> jsnum" where
  "nonDecimal radix ds =
     (if ds \<noteq> [] \<and> list_all (\<lambda>c. digitOf radix c \<noteq> None) ds
      then toDouble (digitsVal radix ds) 1 else NaN)"

text \<open>
  \<^verbatim>\<open>Number(s)\<close> on a string: white space is stripped at both ends, the empty string is
  0, a prefix \<^verbatim>\<open>0x\<close>, \<^verbatim>\<open>0o\<close> or \<^verbatim>\<open>0b\<close> (either case) starts an unsigned integer in that
  radix, anything else is an optionally signed decimal literal; every other string is NaN.
\<close>

definition toNumber :: "jsstring \<Rightarrow> jsnum" where
  "toNumber s =
     (let t = trim s in
      case t of
        [] \<Rightarrow> Finite 0
      | c # r \<Rightarrow>
          if c = 0x2B then unsignedDecimal r
          else if c = 0x2D then negate (unsignedDecimal r)
          else if c = 0x30 \<and> r \<noteq> [] \<and> (hd r = 0x78 \<or> hd r = 0x58) then nonDecimal 16 (tl r)
          else if c = 0x30 \<and> r \<noteq> [] \<and> (hd r = 0x6F \<or> hd r = 0x4F) then nonDecimal 8 (tl r)
          else if c = 0x30 \<and> r \<noteq> [] \<and> (hd r = 0x62 \<or> hd r = 0x42) then nonDecimal 2 (tl r)
          else unsignedDecimal t)"

text \<open>
  \<^verbatim>\<open>parseInt(s, 10)\<close>: leading white space and one sign are skipped and the longest
  prefix of decimal digits is read; no digit at all gives NaN. The integer read is
  rounded to a Number (past 20 significant digits ECMAScript allows an approximation;
  the engines round correctly).
\<close>

definition parseInt :: "jsstring \<Rightarrow> jsnum" where
  "parseInt s =
     (let t = trimStart s;
          neg = (t \<noteq> [] \<and> hd t = 0x2D);
          u = (if t \<noteq> [] \<and> (hd t = 0x2B \<or> hd t = 0x2D) then tl t else t);
          z = takeWhile isDigit u
      in if z = [] then NaN
         else if neg then negate (toDouble (digitsVal 10 z) 1) else toDouble (digitsVal 10 z) 1)"

section \<open>Value normalizer: numbers\<close>

text \<open>
  \<^verbatim>\<open>parseNumber\<close> is the same in both files. A cell is a string, or \<^verbatim>\<open>undefined\<close>
  when the row has no such column (\<open>None\<close>).
  \<^verbatim>\<open>
  const parseNumber = (value) => {
    if (!value) return 0;
    const cleaned = String(value).replace(/[^0-9.\-]/g, "");
    const n = Number(cleaned);
    return isNaN(n) ? 0 : n;
  };
  \<close>
\<close>

definition keepNumeric :: "16 word \<Rightarrow> bool" where
  "keepNumeric c = (isDigit c \<or> c = 0x2E \<or> c = 0x2D)"

definition cleaned :: "jsstring \<Rightarrow> jsstring" where
  "cleaned s = filter keepNumeric s"


section \<open>The host\<close>

text \<open>
  What the JavaScript runtime supplies and the repository only calls.
  \<^item> \<open>dateParse\<close> is \<^verbatim>\<open>new Date(s).getTime()\<close>, \<open>None\<close> for an invalid date: outside the
    ISO format its result is left to the implementation.
  \<^item> \<open>toLowerCase\<close> and \<open>toUpperCase\<close> are the Unicode case mappings.
  \<^item> \<open>numberText\<close> is \<^verbatim>\<open>String(n)\<close> for the finite numbers that are not integers below
    \<open>2^53\<close> in magnitude (the shortest digits that read back as \<open>n\<close>).
  \<^item> \<open>localTZA t isUTC\<close> is the offset of local time from UTC in milliseconds at the
    instant \<open>t\<close>, which is a UTC time value when \<open>isUTC\<close> and a local one otherwise.
  A valid date is its time value, the milliseconds since the epoch, at most
  \<open>8.64e15\<close> in magnitude; \<open>None\<close> is the invalid date.
\<close>

record host =
  dateParse :: "jsstring \<Rightarrow> int option"
  toLowerCase :: "jsstring \<Rightarrow> jsstring"
  toUpperCase :: "jsstring \<Rightarrow> jsstring"
  numberText :: "rat \<Rightarrow> jsstring"
  localTZA :: "int \<Rightarrow> bool \<Rightarrow> int"

subsection \<open>The calendar of ECMAScript\<close>

definition msPerDay :: int where
  "msPerDay = 86400000"

definition dayOf :: "int \<Rightarrow> int" where
  "dayOf t = t div msPerDay"

definition timeWithinDay :: "int \<Rightarrow> int" where
  "timeWithinDay t = t mod msPerDay"

definition dayFromYear :: "int \<Rightarrow> int" where
  "dayFromYear y = 365 * (y - 1970) + (y - 1969) div 4 - (y - 1901) div 100 + (y - 1601) div 400"

definition inLeapYear :: "int \<Rightarrow> bool" where
  "inLeapYear y = (y mod 4 = 0 \<and> (y mod 100 \<noteq> 0 \<or> y mod 400 = 0))"

text \<open>
  The year of a day number: the largest \<open>y\<close> with \<open>dayFromYear y \<le> d\<close>. The estimate
  \<open>y0\<close> is off by at most one.
\<close>

definition yearFromDay :: "int \<Rightarrow> int" where
  "yearFromDay d =
     (let y0 = 1970 + (400 * d) div 146097 in
      if dayFromYear (y0 + 1) \<le> d then y0 + 1
      else if dayFromYear y0 \<le> d then y0
      else y0 - 1)"

text \<open>Day within the year on which month \<open>m\<close> (0 to 11) starts.\<close>

definition monthStart :: "int \<Rightarrow> bool \<Rightarrow> int" where
  "monthStart m leap =
     (let l = (if leap then 1 else 0) in
      if m = 0 then 0 else if m = 1 then 31 else if m = 2 then 59 + l
      else if m = 3 then 90 + l else if m = 4 then 120 + l else if m = 5 then 151 + l
      else if m = 6 then 181 + l else if m = 7 then 212 + l else if m = 8 then 243 + l
      else if m = 9 then 273 + l else if m = 10 then 304 + l else 334 + l)"

definition monthFromDay :: "int \<Rightarrow> bool \<Rightarrow> int" where
  "monthFromDay dwy leap =
     (let l = (if leap then 1 else 0) in
      if dwy < 31 then 0 else if dwy < 59 + l then 1 else if dwy < 90 + l then 2
      else if dwy < 120 + l then 3 else if dwy < 151 + l then 4 else if dwy < 181 + l then 5
      else if dwy < 212 + l then 6 else if dwy < 243 + l then 7 else if dwy < 273 + l then 8
      else if dwy < 304 + l then 9 else if dwy < 334 + l then 10 else 11)"

definition yearFromTime :: "int \<Rightarrow> int" where
  "yearFromTime t = yearFromDay (dayOf t)"

definition dayWithinYear :: "int \<Rightarrow> int" where
  "dayWithinYear t = dayOf t - dayFromYear (yearFromTime t)"

definition monthFromTime :: "int \<Rightarrow> int" where
  "monthFromTime t = monthFromDay (dayWithinYear t) (inLeapYear (yearFromTime t))"

definition dateFromTime :: "int \<Rightarrow> int" where
  "dateFromTime t =
     dayWithinYear t - monthStart (monthFromTime t) (inLeapYear (yearFromTime t)) + 1"

text \<open>MakeDay: months beyond 0 to 11 carry into the year, the date is added as days.\<close>

definition makeDay :: "int \<Rightarrow> int \<Rightarrow> int \<Rightarrow> int" where
  "makeDay y m dt =
     (let ym = y + m div 12; mn = m mod 12 in
      dayFromYear ym + monthStart mn (inLeapYear ym) + dt - 1)"

definition timeClip :: "int \<Rightarrow> int option" where
  "timeClip t = (if \<bar>t\<bar> \<le> 8640000000000000 then Some t else None)"

definition localTime :: "host \<Rightarrow> int \<Rightarrow> int" where
  "localTime h t = t + localTZA h t True"

definition utcTime :: "host \<Rightarrow> int \<Rightarrow> int" where
  "utcTime h t = t - localTZA h t False"

definition getFullYear :: "host \<Rightarrow> int \<Rightarrow> int" where
  "getFullYear h t = yearFromTime (localTime h t)"

definition getMonth :: "host \<Rightarrow> int \<Rightarrow> int" where
  "getMonth h t = monthFromTime (localTime h t)"

definition getDate :: "host \<Rightarrow> int \<Rightarrow> int" where
  "getDate h t = dateFromTime (localTime h t)"

text \<open>
  \<^verbatim>\<open>new Date(year, month, date)\<close>: local midnight of that day, a year from 0 to 99
  meaning 1900 + year; \<^verbatim>\<open>d.setDate(date)\<close> keeps the month and the time of day of
  \<open>d\<close>. Both end in TimeClip, so the result can be the invalid date. (The arguments
  are fields of a valid date, which MakeDay never refuses.)
\<close>

definition newDate :: "host \<Rightarrow> int \<Rightarrow> int \<Rightarrow> int \<Rightarrow> int option" where
  "newDate h y m dt =
     (let yr = (if 0 \<le> y \<and> y \<le> 99 then 1900 + y else y) in
      timeClip (utcTime h (makeDay yr m dt * msPerDay)))"

definition setDate :: "host \<Rightarrow> int \<Rightarrow> int \<Rightarrow> int option" where
  "setDate h t dt =
     (let lt = localTime h t in
      timeClip (utcTime h (makeDay (yearFromTime lt) (monthFromTime lt) dt * msPerDay
                           + timeWithinDay lt)))"

section \<open>Value normalizer: dates\<close>

text \<open>
  The two files differ in one place of \<^verbatim>\<open>parseDate\<close>, the order of its two tests for a
  four-character year, and in the header name of the status column; \<open>srcfile\<close> selects
  which file's text is modelled.
\<close>

datatype srcfile = IndexJs | Part000

text \<open>\<^verbatim>\<open>clean.split(/[\/\-\s:]+/)\<close>: the pieces between maximal runs of separators.\<close>

definition isSeparator :: "16 word \<Rightarrow> bool" where
  "isSeparator c = (c = 0x2F \<or> c = 0x2D \<or> c = 0x3A \<or> isWhiteSpace c)"

function splitParts :: "jsstring \<Rightarrow> jsstring list" where
  "splitParts s =
     (case dropWhile (\<lambda>c. \<not> isSeparator c) s of
        [] \<Rightarrow> [s]
      | c # r \<Rightarrow> takeWhile (\<lambda>c. \<not> isSeparator c) s # splitParts (dropWhile isSeparator r))"
  by pat_completeness auto
termination
proof (relation "measure length")
  fix s :: jsstring and c r
  assume a: "dropWhile (\<lambda>c. \<not> isSeparator c) s = c # r"
  have "length (dropWhile isSeparator r) \<le> length r"
    by (rule length_dropWhile_le)
  moreover have "length (c # r) \<le> length s"
    using length_dropWhile_le [of "\<lambda>c. \<not> isSeparator c" s] a by simp
  ultimately show "(dropWhile isSeparator r, s) \<in> measure length"
    by simp
qed simp

declare splitParts.simps [simp del]

text \<open>
  \<^verbatim>\<open>String(n)\<close> and \<^verbatim>\<open>padStart(2, "0")\<close>. An integer below \<open>2^53\<close> in magnitude
  prints as its decimal digits; the text of any other finite number is the host's.
\<close>

fun natToString :: "nat \<Rightarrow> jsstring" where
  "natToString n =
     (if n < 10 then [of_nat (48 + n)] else natToString (n div 10) @ [of_nat (48 + n mod 10)])"

declare natToString.simps [simp del]

definition intToString :: "int \<Rightarrow> jsstring" where
  "intToString i = (if i < 0 then 0x2D # natToString (nat (- i)) else natToString (nat i))"

definition numberToString :: "host \<Rightarrow> jsnum \<Rightarrow> jsstring" where
  "numberToString h n =
     (case n of
        NaN \<Rightarrow> str ''NaN''
      | Finite r \<Rightarrow>
          if of_int \<lfloor>r\<rfloor> = r \<and> \<bar>r\<bar> < 2 ^ 53 then intToString \<lfloor>r\<rfloor> else numberText h r
      | NegZero \<Rightarrow> str ''0''
      | PosInfinity \<Rightarrow> str ''Infinity''
      | NegInfinity \<Rightarrow> str ''-Infinity'')"

definition padStart2 :: "jsstring \<Rightarrow> jsstring" where
  "padStart2 s = replicate (2 - length s) 0x30 @ s"

text \<open>The three numbers the fallback extracts.\<close>

record dmy =
  day :: jsnum
  month :: jsnum
  year :: jsnum

text \<open>\<^verbatim>\<open>parseInt(a, 10) > 12\<close>\<close>

definition exceeds12 :: "jsnum \<Rightarrow> bool" where
  "exceeds12 n = numGt n 12"

text \<open>
  The chain of tests on the first three pieces \<open>a\<close>, \<open>b\<close>, \<open>c\<close>, each file in its own
  order. In \<^verbatim>\<open>index.js\<close>:
  \<^verbatim>\<open>
  if (c.length === 4 && Number(c) > 1900 && Number(c) < 3000) {
    if (parseInt(a, 10) > 12) { day = parseInt(a, 10); month = parseInt(b, 10); }
    else { month = parseInt(a, 10); day = parseInt(b, 10); }
    year = parseInt(c, 10);
  } else if (a.length === 4 && Number(a) > 1900) {
    year = parseInt(a, 10); month = parseInt(b, 10); day = parseInt(c, 10);
  } else {
    if (parseInt(a, 10) > 12) { day = parseInt(a, 10); month = parseInt(b, 10); year = parseInt(c, 10); }
    else { month = parseInt(a, 10); day = parseInt(b, 10); year = parseInt(c, 10); }
  }
  \<close>
  In the other file the test on \<open>a\<close> comes first and the test on \<open>c\<close> second.
\<close>

fun interpretParts :: "srcfile \<Rightarrow> jsstring \<Rightarrow> jsstring \<Rightarrow> jsstring \<Rightarrow> dmy" where
  "interpretParts IndexJs a b c =
     (if length c = 4 \<and> numGt (toNumber c) 1900 \<and> numLt (toNumber c) 3000 then
        (if exceeds12 (parseInt a)
         then \<lparr>day = parseInt a, month = parseInt b, year = parseInt c\<rparr>
         else \<lparr>day = parseInt b, month = parseInt a, year = parseInt c\<rparr>)
      else if length a = 4 \<and> numGt (toNumber a) 1900 then
        \<lparr>day = parseInt c, month = parseInt b, year = parseInt a\<rparr>
      else
        (if exceeds12 (parseInt a)
         then \<lparr>day = parseInt a, month = parseInt b, year = parseInt c\<rparr>
         else \<lparr>day = parseInt b, month = parseInt a, year = parseInt c\<rparr>))"
| "interpretParts Part000 a b c =
     (if length a = 4 \<and> numGt (toNumber a) 1900 then
        \<lparr>day = parseInt c, month = parseInt b, year = parseInt a\<rparr>
      else if length c = 4 \<and> numGt (toNumber c) 1900 \<and> numLt (toNumber c) 3000 then
        (if exceeds12 (parseInt a)
         then \<lparr>day = parseInt a, month = parseInt b, year = parseInt c\<rparr>
         else \<lparr>day = parseInt b, month = parseInt a, year = parseInt c\<rparr>)
      else
        (if exceeds12 (parseInt a)
         then \<lparr>day = parseInt a, month = parseInt b, year = parseInt c\<rparr>
         else \<lparr>day = parseInt b, month = parseInt a, year = parseInt c\<rparr>))"

declare interpretParts.simps [simp del]

definition isoString :: "host \<Rightarrow> dmy \<Rightarrow> jsstring" where
  "isoString h d =
     numberToString h (year d) @ str ''-'' @ padStart2 (numberToString h (month d))
       @ str ''-'' @ padStart2 (numberToString h (day d)) @ str ''T00:00:00''"

text \<open>
  The manual fallback up to the string it hands to \<^verbatim>\<open>new Date\<close>; \<open>None\<close> where the
  source returns \<^verbatim>\<open>null\<close> before that.
\<close>

definition manualIso :: "srcfile \<Rightarrow> host \<Rightarrow> jsstring \<Rightarrow> jsstring option" where
  "manualIso f h clean =
     (case splitParts clean of
        a # b # c # _ \<Rightarrow>
          (let d = interpretParts f (trim a) (trim b) (trim c) in
           if falsy (day d) \<or> falsy (month d) \<or> falsy (year d) then None
           else Some (isoString h d))
      | _ \<Rightarrow> None)"

text \<open>
  \<^verbatim>\<open>
  const parseDate = (value) => {
    if (!value) return null;
    const clean = String(value).trim();
    if (!clean) return null;
    const direct = new Date(clean);
    if (!isNaN(direct.getTime())) return direct;
    const parts = clean.split(/[\/\-\s:]+/);
    if (parts.length < 3) return null;
    let [a, b, c] = parts;  ...
    if (!day || !month || !year) return null;
    const iso = `${year}-${String(month).padStart(2, "0")}-${String(day).padStart(2, "0")}T00:00:00`;
    const d = new Date(iso);
    return isNaN(d.getTime()) ? null : d;
  };
  \<close>
\<close>

definition parseDate :: "srcfile \<Rightarrow> host \<Rightarrow> jsstring option \<Rightarrow> int option" where
  "parseDate f h v =
     (case v of
        None \<Rightarrow> None
      | Some s \<Rightarrow>
          if s = [] then None
          else let clean = trim s in
            if clean = [] then None
            else case dateParse h clean of
                   Some t \<Rightarrow> Some t
                 | None \<Rightarrow>
                     (case manualIso f h clean of
                        None \<Rightarrow> None
                      | Some rebuilt \<Rightarrow> dateParse h rebuilt))"

section \<open>Column names\<close>

text \<open>
  The entries of \<^verbatim>\<open>COLS\<close> the modelled routes use. The header of the status column is
  \<^verbatim>\<open>"SOLD/UNSOLD"\<close> in \<^verbatim>\<open>index.js\<close> and \<^verbatim>\<open>"SOLD/UNSO"\<close> in the other file.
\<close>

definition BOOKING_DATE :: jsstring where
  "BOOKING_DATE = str ''Booking Date''"

definition CLUSTER :: jsstring where
  "CLUSTER = str ''Cluster''"

definition UNIT_NO :: jsstring where
  "UNIT_NO = str ''Unit No.''"

definition MOBILE :: jsstring where
  "MOBILE = str ''Mobile Number''"

definition SOLD_STATUS :: "srcfile \<Rightarrow> jsstring" where
  "SOLD_STATUS f = (case f of IndexJs \<Rightarrow> str ''SOLD/UNSOLD'' | Part000 \<Rightarrow> str ''SOLD/UNSO'')"

definition SALE_PRICE :: jsstring where
  "SALE_PRICE = str ''Sale Price''"

definition GROSS_SALE_VALUE_NO_GST :: jsstring where
  "GROSS_SALE_VALUE_NO_GST = str ''Gross Sale Value without GST''"

definition GROSS_AMOUNT_RECEIVED :: jsstring where
  "GROSS_AMOUNT_RECEIVED = str ''Gross Amount Received''"

definition PENDING_DEMAND :: jsstring where
  "PENDING_DEMAND = str ''Pending Demand''"

definition RECEIVABLES :: jsstring where
  "RECEIVABLES = str ''Receivables''"

section \<open>Period filter\<close>

text \<open>
  A record is the map from its own header names to cell strings. The routes read it
  only at the column names of \<^verbatim>\<open>COLS\<close>, none of which is a property of
  \<^verbatim>\<open>Object.prototype\<close>, so \<^verbatim>\<open>row[key]\<close> is the own property or \<^verbatim>\<open>undefined\<close>.
\<close>

type_synonym row = "jsstring \<rightharpoonup> jsstring"

definition startOfToday :: "host \<Rightarrow> int \<Rightarrow> int option" where
  "startOfToday h now = newDate h (getFullYear h now) (getMonth h now) (getDate h now)"

definition endOfToday :: "host \<Rightarrow> int \<Rightarrow> int option" where
  "endOfToday h now = newDate h (getFullYear h now) (getMonth h now) (getDate h now + 1)"

definition oneWeekAgo :: "host \<Rightarrow> int \<Rightarrow> int option" where
  "oneWeekAgo h now = setDate h now (getDate h now - 7)"

definition startOfMonth :: "host \<Rightarrow> int \<Rightarrow> int option" where
  "startOfMonth h now = newDate h (getFullYear h now) (getMonth h now) 1"

definition endOfMonth :: "host \<Rightarrow> int \<Rightarrow> int option" where
  "endOfMonth h now = newDate h (getFullYear h now) (getMonth h now + 1) 1"

text \<open>
  Comparing a valid date \<open>d\<close> with a bound that may be the invalid date: every
  comparison with NaN is false.
\<close>

definition notBefore :: "int \<Rightarrow> int option \<Rightarrow> bool" where
  "notBefore d b = (case b of None \<Rightarrow> False | Some x \<Rightarrow> x \<le> d)"

definition before :: "int \<Rightarrow> int option \<Rightarrow> bool" where
  "before d b = (case b of None \<Rightarrow> False | Some x \<Rightarrow> d < x)"

text \<open>
  \<open>now\<close> is the instant \<^verbatim>\<open>new Date()\<close> returns when the filter is called, a valid
  time value.
  \<^verbatim>\<open>
  return data.filter((row) => {
    const d = parseDate(row[dateColumn]);
    if (!d) return false;
    switch (period) {
      case "today":      return d >= startOfToday && d < endOfToday;
      case "this_week":  return d >= oneWeekAgo && d <= now;
      case "this_month": return d >= startOfMonth && d < endOfMonth;
      default:           return true;
    }
  });
  \<close>
\<close>

definition keepRow :: "srcfile \<Rightarrow> host \<Rightarrow> int \<Rightarrow> jsstring \<Rightarrow> jsstring \<Rightarrow> row \<Rightarrow> bool" where
  "keepRow f h now period dateColumn r =
     (case parseDate f h (r dateColumn) of
        None \<Rightarrow> False
      | Some d \<Rightarrow>
          if period = str ''today''
          then notBefore d (startOfToday h now) \<and> before d (endOfToday h now)
          else if period = str ''this_week''
          then notBefore d (oneWeekAgo h now) \<and> d \<le> now
          else if period = str ''this_month''
          then notBefore d (startOfMonth h now) \<and> before d (endOfMonth h now)
          else True)"

definition filterByPeriod ::
    "srcfile \<Rightarrow> host \<Rightarrow> int \<Rightarrow> row list \<Rightarrow> jsstring \<Rightarrow> jsstring \<Rightarrow> row list" where
  "filterByPeriod f h now rows period dateColumn = filter (keepRow f h now period dateColumn) rows"

section \<open>Group counter\<close>

text \<open>
  \<^verbatim>\<open>
  const groupCount = (data, key) => {
    const counts = {};
    data.forEach((row) => {
      const val = (row[key] || "Unknown").trim() || "Unknown";
      counts[val] = (counts[val] || 0) + 1;
    });
    return Object.entries(counts)
      .sort((a, b) => b[1] - a[1])
      .map(([label, count]) => ({ label, count }));
  };
  \<close>
  The labels come from the cells of the sheet, so they can be any string, also the name
  of a property that the object literal \<^verbatim>\<open>{}\<close> inherits from \<^verbatim>\<open>Object.prototype\<close>.
  Reading such a name from \<^verbatim>\<open>counts\<close> before it is an own property yields the inherited
  function (or, for \<^verbatim>\<open>__proto__\<close>, the prototype object), which is truthy, and adding 1
  to it yields a string. The model keeps the own properties of \<^verbatim>\<open>counts\<close> in creation
  order; a value is a count or such a string (\<open>Junk\<close>).
\<close>

datatype cval = Count nat | Junk

definition objectProtoKeys :: "jsstring list" where
  "objectProtoKeys =
     [str ''constructor'', str ''__defineGetter__'', str ''__defineSetter__'',
      str ''hasOwnProperty'', str ''__lookupGetter__'', str ''__lookupSetter__'',
      str ''isPrototypeOf'', str ''propertyIsEnumerable'', str ''toString'', str ''valueOf'',
      str ''__proto__'', str ''toLocaleString'']"

text \<open>\<^verbatim>\<open>(row[key] || "Unknown").trim() || "Unknown"\<close>\<close>

definition labelOf :: "row \<Rightarrow> jsstring \<Rightarrow> jsstring" where
  "labelOf r key =
     (let v = (case r key of None \<Rightarrow> str ''Unknown'' | Some s \<Rightarrow> if s = [] then str ''Unknown'' else s);
          t = trim v
      in if t = [] then str ''Unknown'' else t)"

text \<open>Assignment to an own property keeps its place; a new property goes last.\<close>

fun setOwn :: "jsstring \<Rightarrow> cval \<Rightarrow> (jsstring \<times> cval) list \<Rightarrow> (jsstring \<times> cval) list" where
  "setOwn k v [] = [(k, v)]"
| "setOwn k v (p # ps) = (if fst p = k then (k, v) # ps else p # setOwn k v ps)"

text \<open>
  \<^verbatim>\<open>counts[val] = (counts[val] || 0) + 1\<close>. An own count is incremented (\<open>addOne\<close> is
  the addition of binary64, which stays at \<open>2^53\<close>); an own string gets \<^verbatim>\<open>"1"\<close> appended
  and stays a string. For a name that is not yet an own property:
  the setter of \<^verbatim>\<open>__proto__\<close> ignores a string, so nothing is stored; any other inherited
  name becomes an own property holding a string; every other name starts at 1.
\<close>

definition addOne :: "nat \<Rightarrow> nat" where
  "addOne n = (if n < 2 ^ 53 then n + 1 else n)"

definition bump :: "(jsstring \<times> cval) list \<Rightarrow> jsstring \<Rightarrow> (jsstring \<times> cval) list" where
  "bump counts val =
     (case map_of counts val of
        Some (Count n) \<Rightarrow> setOwn val (Count (addOne n)) counts
      | Some Junk \<Rightarrow> setOwn val Junk counts
      | None \<Rightarrow>
          if val = str ''__proto__'' then counts
          else if val \<in> set objectProtoKeys then setOwn val Junk counts
          else setOwn val (Count 1) counts)"

text \<open>
  \<^verbatim>\<open>Object.entries\<close>: the names that are array indices first, in ascending numeric
  order, then the other names in creation order.
\<close>

definition isArrayIndex :: "jsstring \<Rightarrow> bool" where
  "isArrayIndex k =
     (k \<noteq> [] \<and> list_all isDigit k \<and> (k = str ''0'' \<or> hd k \<noteq> 0x30) \<and> digitsVal 10 k < 4294967295)"

definition entries :: "(jsstring \<times> cval) list \<Rightarrow> (jsstring \<times> cval) list" where
  "entries counts =
     sort_key (\<lambda>p. digitsVal 10 (fst p)) (filter (\<lambda>p. isArrayIndex (fst p)) counts)
       @ filter (\<lambda>p. \<not> isArrayIndex (fst p)) counts"

text \<open>
  The comparator \<^verbatim>\<open>(a, b) => b[1] - a[1]\<close>; \<open>None\<close> is NaN, which the sort reads as 0.
  \<^verbatim>\<open>Array.prototype.sort\<close> is stable: an insertion sort that puts \<open>x\<close> in front of \<open>y\<close>
  unless the comparator is positive. (With a string among the counts the comparator is
  not consistent and ECMAScript leaves the order to the implementation.)
\<close>

definition comparator :: "jsstring \<times> cval \<Rightarrow> jsstring \<times> cval \<Rightarrow> int option" where
  "comparator a b =
     (case (snd a, snd b) of (Count m, Count n) \<Rightarrow> Some (int n - int m) | _ \<Rightarrow> None)"

definition comesAfter :: "jsstring \<times> cval \<Rightarrow> jsstring \<times> cval \<Rightarrow> bool" where
  "comesAfter a b = (case comparator a b of None \<Rightarrow> False | Some d \<Rightarrow> 0 < d)"

fun insertSorted :: "jsstring \<times> cval \<Rightarrow> (jsstring \<times> cval) list \<Rightarrow> (jsstring \<times> cval) list" where
  "insertSorted x [] = [x]"
| "insertSorted x (y # ys) = (if comesAfter x y then y # insertSorted x ys else x # y # ys)"

definition sortByCount :: "(jsstring \<times> cval) list \<Rightarrow> (jsstring \<times> cval) list" where
  "sortByCount xs = foldr insertSorted xs []"

definition tally :: "row list \<Rightarrow> jsstring \<Rightarrow> (jsstring \<times> cval) list" where
  "tally rows key = foldl (\<lambda>counts r. bump counts (labelOf r key)) [] rows"

definition groupCount :: "row list \<Rightarrow> jsstring \<Rightarrow> (jsstring \<times> cval) list" where
  "groupCount rows key = sortByCount (entries (tally rows key))"

section \<open>Bookings summary\<close>

text \<open>\<^verbatim>\<open>s.includes(t)\<close>: \<open>t\<close> occurs in \<open>s\<close> as a contiguous piece.\<close>

primrec strIncludes :: "jsstring \<Rightarrow> jsstring \<Rightarrow> bool" where
  "strIncludes [] t = (t = [])"
| "strIncludes (c # cs) t = (prefix t (c # cs) \<or> strIncludes cs t)"

text \<open>
  The aggregation of \<^verbatim>\<open>GET /bookings/summary\<close> on the rows the loader returned:
  \<^verbatim>\<open>
  const filtered = filterByPeriod(data, period, COLS.BOOKING_DATE);
  const total = filtered.length;
  const sold = filtered.filter(
    (r) => (r[COLS.SOLD_STATUS] || "").toUpperCase().includes("SOLD")).length;
  const unsold = filtered.filter(
    (r) => (r[COLS.SOLD_STATUS] || "").toUpperCase().includes("UNSOLD")).length;
  const byCluster = groupCount(filtered, COLS.CLUSTER);
  \<close>
\<close>

record summary =
  total_bookings :: nat
  sold :: nat
  unsold :: nat
  by_cluster :: "(jsstring \<times> cval) list"

definition orEmpty :: "jsstring option \<Rightarrow> jsstring" where
  "orEmpty v = (case v of None \<Rightarrow> [] | Some s \<Rightarrow> s)"

definition summarize :: "srcfile \<Rightarrow> host \<Rightarrow> row list \<Rightarrow> summary" where
  "summarize f h filtered =
     \<lparr>total_bookings = length filtered,
      sold = length (filter (\<lambda>r. strIncludes (toUpperCase h (orEmpty (r (SOLD_STATUS f)))) (str ''SOLD'')) filtered),
      unsold = length (filter (\<lambda>r. strIncludes (toUpperCase h (orEmpty (r (SOLD_STATUS f)))) (str ''UNSOLD'')) filtered),
      by_cluster = groupCount filtered CLUSTER\<rparr>"

definition bookingsSummary :: "srcfile \<Rightarrow> host \<Rightarrow> int \<Rightarrow> row list \<Rightarrow> jsstring \<Rightarrow> summary" where
  "bookingsSummary f h now rows period =
     summarize f h (filterByPeriod f h now rows period BOOKING_DATE)"

section \<open>Fuzzy header resolution\<close>

text \<open>
  Only the second file has it, inside \<^verbatim>\<open>GET /revenue/summary\<close>; \<open>keys\<close> is
  \<^verbatim>\<open>Object.keys(sample)\<close>, the header names of the first record.
  \<^verbatim>\<open>
  const norm = (s) => (s || "").toString().toLowerCase().replace(/\s+/g, " ").trim();
  const findKey = (label) => {
    const target = norm(label);
    return (keys.find((k) => norm(k) === target) ||
            keys.find((k) => norm(k).includes(target)));
  };
  const salePriceKey = findKey("Sale Price") || findKey(COLS.SALE_PRICE) || COLS.SALE_PRICE;
  \<close>
\<close>

function collapseSpaces :: "jsstring \<Rightarrow> jsstring" where
  "collapseSpaces [] = []"
| "collapseSpaces (c # cs) =
     (if isWhiteSpace c then 0x20 # collapseSpaces (dropWhile isWhiteSpace cs)
      else c # collapseSpaces cs)"
  by pat_completeness auto
termination
  by (relation "measure length") (auto simp: length_dropWhile_le less_Suc_eq_le)

definition normKey :: "host \<Rightarrow> jsstring \<Rightarrow> jsstring" where
  "normKey h s = trim (collapseSpaces (toLowerCase h s))"

text \<open>\<^verbatim>\<open>a || b\<close> on strings and \<^verbatim>\<open>undefined\<close>: the empty string is falsy too.\<close>

definition orElse :: "jsstring option \<Rightarrow> jsstring option \<Rightarrow> jsstring option" where
  "orElse a b = (case a of None \<Rightarrow> b | Some s \<Rightarrow> if s = [] then b else Some s)"

definition findKey :: "host \<Rightarrow> jsstring list \<Rightarrow> jsstring \<Rightarrow> jsstring option" where
  "findKey h keys label =
     (let target = normKey h label in
      orElse (find (\<lambda>k. normKey h k = target) keys) (find (\<lambda>k. strIncludes (normKey h k) target) keys))"

text \<open>\<^verbatim>\<open>findKey(label) || findKey(dflt) || dflt\<close>, with \<open>dflt\<close> the entry of \<^verbatim>\<open>COLS\<close>.\<close>

definition resolveKey :: "host \<Rightarrow> jsstring list \<Rightarrow> jsstring \<Rightarrow> jsstring \<Rightarrow> jsstring" where
  "resolveKey h keys label dflt =
     (case orElse (orElse (findKey h keys label) (findKey h keys dflt)) (Some dflt) of
        None \<Rightarrow> dflt
      | Some k \<Rightarrow> k)"

definition salePriceKey :: "host \<Rightarrow> jsstring list \<Rightarrow> jsstring" where
  "salePriceKey h keys = resolveKey h keys (str ''Sale Price'') SALE_PRICE"

definition grossNoGstKey :: "host \<Rightarrow> jsstring list \<Rightarrow> jsstring" where
  "grossNoGstKey h keys = resolveKey h keys (str ''Gross Sale Value without GST'') GROSS_SALE_VALUE_NO_GST"

definition receivedKey :: "host \<Rightarrow> jsstring list \<Rightarrow> jsstring" where
  "receivedKey h keys = resolveKey h keys (str ''Gross Amount Received'') GROSS_AMOUNT_RECEIVED"

definition pendingDemandKey :: "host \<Rightarrow> jsstring list \<Rightarrow> jsstring" where
  "pendingDemandKey h keys = resolveKey h keys (str ''Pending Demand'') PENDING_DEMAND"

definition receivablesKey :: "host \<Rightarrow> jsstring list \<Rightarrow> jsstring" where
  "receivablesKey h keys = resolveKey h keys (str ''Receivables'') RECEIVABLES"

section \<open>Customer lookup\<close>

text \<open>
  The route is the same in both files. The only effect the model tracks is the number
  of sheet reads issued (\<^verbatim>\<open>getRows\<close> calls); \<open>sheet\<close> is what the read returns, \<open>None\<close>
  when it throws. A query parameter is absent, a string, or (for a repeated or
  bracketed parameter) an array or object, which is truthy and has neither
  \<^verbatim>\<open>replace\<close> nor \<^verbatim>\<open>toLowerCase\<close>: calling them throws, and the handler answers 500.
  \<^verbatim>\<open>
  try {
    const { mobile, unit } = req.query;
    if (!mobile && !unit) {
      return res.status(400).json({ error: "Provide mobile or unit query" });
    }
    const data = await getRows();
    let filtered = data;
    if (mobile) {
      const m = mobile.replace(/\D/g, "");
      filtered = filtered.filter((r) =>
        String(r[COLS.MOBILE] || "").replace(/\D/g, "").includes(m));
    }
    if (unit) {
      filtered = filtered.filter(
        (r) => (r[COLS.UNIT_NO] || "").toLowerCase() === unit.toLowerCase());
    }
    res.json({ count: filtered.length, customers: filtered });
  } catch (error) {
    res.status(500).json({ error: "Failed to lookup customer" });
  }
  \<close>
\<close>

record world =
  fetches :: nat

datatype qval = QString jsstring | QOther

datatype body = ErrorBody jsstring | Customers nat "row list"

datatype response = Response nat body

definition getRows :: "row list option \<Rightarrow> world \<Rightarrow> row list option \<times> world" where
  "getRows sheet w = (sheet, w\<lparr>fetches := fetches w + 1\<rparr>)"

text \<open>Truthiness of a query parameter.\<close>

definition given :: "qval option \<Rightarrow> bool" where
  "given q = (case q of None \<Rightarrow> False | Some (QString s) \<Rightarrow> s \<noteq> [] | Some QOther \<Rightarrow> True)"

definition digitsOnly :: "jsstring \<Rightarrow> jsstring" where
  "digitsOnly s = filter isDigit s"

definition failed :: response where
  "failed = Response 500 (ErrorBody (str ''Failed to lookup customer''))"

text \<open>The two filters; \<open>None\<close> when the callback or the call before it throws.\<close>

definition byMobile :: "qval option \<Rightarrow> row list \<Rightarrow> row list option" where
  "byMobile mobile rows =
     (case mobile of
        None \<Rightarrow> Some rows
      | Some QOther \<Rightarrow> None
      | Some (QString s) \<Rightarrow>
          if s = [] then Some rows
          else Some (filter (\<lambda>r. strIncludes (digitsOnly (orEmpty (r MOBILE))) (digitsOnly s)) rows))"

definition byUnit :: "host \<Rightarrow> qval option \<Rightarrow> row list \<Rightarrow> row list option" where
  "byUnit h unit rows =
     (case unit of
        None \<Rightarrow> Some rows
      | Some QOther \<Rightarrow> if rows = [] then Some [] else None
      | Some (QString s) \<Rightarrow>
          if s = [] then Some rows
          else Some (filter (\<lambda>r. toLowerCase h (orEmpty (r UNIT_NO)) = toLowerCase h s) rows))"

definition customer ::
    "host \<Rightarrow> row list option \<Rightarrow> qval option \<Rightarrow> qval option \<Rightarrow> world \<Rightarrow> response \<times> world" where
  "customer h sheet mobile unit w =
     (if \<not> given mobile \<and> \<not> given unit
      then (Response 400 (ErrorBody (str ''Provide mobile or unit query'')), w)
      else
        (case fst (getRows sheet w) of
           None \<Rightarrow> (failed, snd (getRows sheet w))
         | Some rows \<Rightarrow>
             (case byMobile mobile rows of
                None \<Rightarrow> (failed, snd (getRows sheet w))
              | Some ms \<Rightarrow>
                  (case byUnit h unit ms of
                     None \<Rightarrow> (failed, snd (getRows sheet w))
                   | Some us \<Rightarrow> (Response 200 (Customers (length us) us), snd (getRows sheet w))))))"

section \<open>An example host\<close>

text \<open>
  A host for the concrete evaluations below. Local time is Indian Standard Time, five
  and a half hours ahead of UTC all year. The date parser accepts the date-time string
  format of ECMAScript and nothing else: a year \<^verbatim>\<open>YYYY\<close> or \<^verbatim>\<open>+YYYYYY\<close> or \<^verbatim>\<open>-YYYYYY\<close>,
  then optionally \<^verbatim>\<open>-MM\<close> and \<^verbatim>\<open>-DD\<close>, then optionally \<^verbatim>\<open>THH:mm\<close>, \<^verbatim>\<open>THH:mm:ss\<close> or
  \<^verbatim>\<open>THH:mm:ss.sss\<close> followed by nothing, \<^verbatim>\<open>Z\<close> or \<^verbatim>\<open>+HH:mm\<close> or \<^verbatim>\<open>-HH:mm\<close>; a date
  without time is UTC, a time without zone is local. The case mappings are those of the
  ASCII letters, and \<open>numberText\<close>, which no evaluation below reaches, prints nothing.
\<close>

definition startsWith :: "16 word \<Rightarrow> jsstring \<Rightarrow> bool" where
  "startsWith c s = (s \<noteq> [] \<and> hd s = c)"

text \<open>Exactly \<open>n\<close> digits: their value and the rest of the string.\<close>

definition digitsField :: "nat \<Rightarrow> jsstring \<Rightarrow> (int \<times> jsstring) option" where
  "digitsField n s =
     (if n \<le> length s \<and> list_all isDigit (take n s)
      then Some (int (digitsVal 10 (take n s)), drop n s) else None)"

text \<open>The character \<open>c\<close> then \<open>n\<close> digits; where \<open>c\<close> does not follow, the default.\<close>

definition optField :: "16 word \<Rightarrow> nat \<Rightarrow> int \<Rightarrow> jsstring \<Rightarrow> (int \<times> jsstring) option" where
  "optField c n dflt s = (if startsWith c s then digitsField n (tl s) else Some (dflt, s))"

definition isoYear :: "jsstring \<Rightarrow> (int \<times> jsstring) option" where
  "isoYear s =
     (if startsWith 0x2B s then digitsField 6 (tl s)
      else if startsWith 0x2D s then
        (case digitsField 6 (tl s) of
           None \<Rightarrow> None
         | Some y \<Rightarrow> if fst y = 0 then None else Some (- fst y, snd y))
      else digitsField 4 s)"

text \<open>
  The date part: its day number and the rest of the string. A day up to 31 is accepted
  in every month and carries into the next one.
\<close>

definition isoDay :: "jsstring \<Rightarrow> (int \<times> jsstring) option" where
  "isoDay s =
     (case isoYear s of
        None \<Rightarrow> None
      | Some y \<Rightarrow>
          (case optField 0x2D 2 1 (snd y) of
             None \<Rightarrow> None
           | Some m \<Rightarrow>
               (case optField 0x2D 2 1 (snd m) of
                  None \<Rightarrow> None
                | Some d \<Rightarrow>
                    if 1 \<le> fst m \<and> fst m \<le> 12 \<and> 1 \<le> fst d \<and> fst d \<le> 31
                    then Some (makeDay (fst y) (fst m - 1) (fst d), snd d) else None)))"

text \<open>The time part after \<^verbatim>\<open>T\<close>: its milliseconds and the rest of the string.\<close>

definition isoTime :: "jsstring \<Rightarrow> (int \<times> jsstring) option" where
  "isoTime s =
     (case digitsField 2 s of
        None \<Rightarrow> None
      | Some hh \<Rightarrow>
          (if \<not> startsWith 0x3A (snd hh) then None
           else case digitsField 2 (tl (snd hh)) of
             None \<Rightarrow> None
           | Some mi \<Rightarrow>
               (case optField 0x3A 2 0 (snd mi) of
                  None \<Rightarrow> None
                | Some ss \<Rightarrow>
                    (case (if startsWith 0x3A (snd mi) then optField 0x2E 3 0 (snd ss)
                           else Some (0, snd ss)) of
                       None \<Rightarrow> None
                     | Some ms \<Rightarrow>
                         if fst mi \<le> 59 \<and> fst ss \<le> 59
                            \<and> (fst hh \<le> 23 \<or> (fst hh = 24 \<and> fst mi = 0 \<and> fst ss = 0 \<and> fst ms = 0))
                         then Some (((fst hh * 60 + fst mi) * 60 + fst ss) * 1000 + fst ms, snd ms)
                         else None))))"

datatype zone = LocalZone | Offset int

definition isoZone :: "jsstring \<Rightarrow> zone option" where
  "isoZone s =
     (if s = [] then Some LocalZone
      else if s = str ''Z'' then Some (Offset 0)
      else if startsWith 0x2B s \<or> startsWith 0x2D s then
        (case digitsField 2 (tl s) of
           None \<Rightarrow> None
         | Some hh \<Rightarrow>
             (if \<not> startsWith 0x3A (snd hh) then None
              else case digitsField 2 (tl (snd hh)) of
                None \<Rightarrow> None
              | Some mi \<Rightarrow>
                  if snd mi = [] \<and> fst hh \<le> 23 \<and> fst mi \<le> 59
                  then Some (Offset ((if startsWith 0x2B s then 1 else - 1)
                                       * ((fst hh * 60 + fst mi) * 60000)))
                  else None))
      else None)"

definition isoDateParse :: "(int \<Rightarrow> bool \<Rightarrow> int) \<Rightarrow> jsstring \<Rightarrow> int option" where
  "isoDateParse tza s =
     (case isoDay s of
        None \<Rightarrow> None
      | Some d \<Rightarrow>
          if snd d = [] then timeClip (fst d * msPerDay)
          else if \<not> startsWith 0x54 (snd d) then None
          else case isoTime (tl (snd d)) of
            None \<Rightarrow> None
          | Some t \<Rightarrow>
              (case isoZone (snd t) of
                 None \<Rightarrow> None
               | Some z \<Rightarrow>
                   (case z of
                      LocalZone \<Rightarrow>
                        timeClip (fst d * msPerDay + fst t
                                  - tza (fst d * msPerDay + fst t) False)
                    | Offset k \<Rightarrow> timeClip (fst d * msPerDay + fst t - k))))"

definition asciiLower :: "jsstring \<Rightarrow> jsstring" where
  "asciiLower s = map (\<lambda>c. if 0x41 \<le> c \<and> c \<le> 0x5A then c + 0x20 else c) s"

definition asciiUpper :: "jsstring \<Rightarrow> jsstring" where
  "asciiUpper s = map (\<lambda>c. if 0x61 \<le> c \<and> c \<le> 0x7A then c - 0x20 else c) s"

definition istZone :: "int \<Rightarrow> bool \<Rightarrow> int" where
  "istZone t isUTC = 19800000"

definition exampleHost :: host where
  "exampleHost =
     \<lparr>dateParse = isoDateParse istZone, toLowerCase = asciiLower, toUpperCase = asciiUpper,
      numberText = (\<lambda>r. []), localTZA = istZone\<rparr>"

section \<open>Properties of the number normalizer\<close>

lemma trim_id: "\<not> isWhiteSpace (hd s) \<Longrightarrow> \<not> isWhiteSpace (last s) \<Longrightarrow> trim s = s"
proof (cases "s = []")
  case True
  then show ?thesis by (simp add: trim_def)
next
  case False
  assume h: "\<not> isWhiteSpace (hd s)" and l: "\<not> isWhiteSpace (last s)"
  have 1: "dropWhile isWhiteSpace s = s"
    using h by (simp add: dropWhile_eq_self_iff)
  have "hd (rev s) = last s" using False by (simp add: hd_rev)
  then have 2: "dropWhile isWhiteSpace (rev s) = rev s"
    using l by (simp add: dropWhile_eq_self_iff)
  show ?thesis by (simp add: trim_def 1 2)
qed













lemmas round_eval = toDouble_def exponentOf_def roundAt_def decimalToDouble_def roundHalfEven_def
  bitlen.simps Let_def










lemmas js_eval = str_def isWhiteSpace_def trim_def trimStart_def isDigit_def digitOf_def
  digitsVal_def negate_def numGt_def numLt_def exponentPart_def unsignedDecimal_def
  nonDecimal_def toNumber_def parseInt_def keepNumeric_def cleaned_def falsy_def
























section \<open>Properties of the date parser\<close>

lemma splitParts_no_separator:
  "p \<in> set (splitParts s) \<Longrightarrow> list_all (\<lambda>c. \<not> isSeparator c) p"
proof (induction s arbitrary: p rule: splitParts.induct)
  case (1 s)
  show ?case
  proof (cases "dropWhile (\<lambda>c. \<not> isSeparator c) s")
    case Nil
    then have "splitParts s = [s]" by (subst splitParts.simps) (simp only: list.case)
    with 1 have "p = s" by simp
    moreover from Nil have "\<forall>c\<in>set s. \<not> isSeparator c" by (simp add: dropWhile_eq_Nil_conv)
    ultimately show ?thesis by (simp add: list_all_iff)
  next
    case (Cons c r)
    then have e: "splitParts s =
        takeWhile (\<lambda>c. \<not> isSeparator c) s # splitParts (dropWhile isSeparator r)"
      by (subst splitParts.simps) (simp only: list.case)
    from 1(2) e consider (a) "p = takeWhile (\<lambda>c. \<not> isSeparator c) s"
      | (b) "p \<in> set (splitParts (dropWhile isSeparator r))" by auto
    then show ?thesis
    proof cases
      case a
      then show ?thesis by (auto simp: list_all_iff dest: set_takeWhileD)
    next
      case b
      then show ?thesis using 1(1) [OF Cons] by simp
    qed
  qed
qed

lemma trim_noop: "list_all (\<lambda>c. \<not> isWhiteSpace c) p \<Longrightarrow> trim p = p"
proof (cases "p = []")
  case True
  then show ?thesis by (simp add: trim_def)
next
  case False
  assume "list_all (\<lambda>c. \<not> isWhiteSpace c) p"
  with False have "\<not> isWhiteSpace (hd p)" "\<not> isWhiteSpace (last p)"
    by (simp_all add: list_all_iff)
  then show ?thesis by (rule trim_id)
qed

lemma trim_part: "p \<in> set (splitParts s) \<Longrightarrow> trim p = p"
proof -
  assume "p \<in> set (splitParts s)"
  then have "list_all (\<lambda>c. \<not> isSeparator c) p" by (rule splitParts_no_separator)
  then have "list_all (\<lambda>c. \<not> isWhiteSpace c) p"
    by (auto simp: list_all_iff isSeparator_def)
  then show ?thesis by (rule trim_noop)
qed

lemma interpretParts_falsy:
  "(falsy (day (interpretParts f a b c)) \<or> falsy (month (interpretParts f a b c))
      \<or> falsy (year (interpretParts f a b c)))
   = (falsy (parseInt a) \<or> falsy (parseInt b) \<or> falsy (parseInt c))"
  by (cases f) (auto simp: interpretParts.simps)

lemma manualIso_short: "length (splitParts clean) < 3 \<Longrightarrow> manualIso f h clean = None"
  by (auto simp: manualIso_def split: list.splits)

lemma manualIso_falsy:
  assumes "splitParts clean = a # b # c # rest"
    and "falsy (parseInt a) \<or> falsy (parseInt b) \<or> falsy (parseInt c)"
  shows "manualIso f h clean = None"
proof -
  have "trim a = a" "trim b = b" "trim c = c"
    using assms(1) by (simp_all add: trim_part [of _ clean])
  then show ?thesis
    using assms interpretParts_falsy [of f a b c] by (simp add: manualIso_def Let_def)
qed

lemma parseDate_Some:
  "parseDate f h (Some s) =
     (if trim s = [] then None
      else case dateParse h (trim s) of
             Some t \<Rightarrow> Some t
           | None \<Rightarrow> (case manualIso f h (trim s) of None \<Rightarrow> None | Some r \<Rightarrow> dateParse h r))"
proof (cases "s = []")
  case True
  then show ?thesis by (simp add: parseDate_def trim_def)
next
  case False
  then show ?thesis by (simp add: parseDate_def Let_def)
qed

text \<open>
  Claim C5. The date parser returns for every input either a valid date or null, and
  it is a function: nothing in it throws. It returns null for an absent or empty input,
  for a string that is blank after trimming, and, when the direct parse fails, for a
  string that splits into fewer than three pieces, for one whose first, second or
  third piece reads under \<^verbatim>\<open>parseInt\<close> as NaN or zero (each extracted component is one of
  these three numbers), and for one whose rebuilt ISO string does not parse. Every
  date it returns is the direct parse of the trimmed input or, that failing, the parse
  of the rebuilt ISO string.
\<close>

theorem parseDate_total:
  "parseDate f h None = None
   \<and> parseDate f h (Some []) = None
   \<and> (trim s = [] \<longrightarrow> parseDate f h (Some s) = None)
   \<and> (dateParse h (trim s) = None \<and> length (splitParts (trim s)) < 3
        \<longrightarrow> parseDate f h (Some s) = None)
   \<and> (dateParse h (trim s) = None \<and> splitParts (trim s) = a # b # c # rest
        \<and> (falsy (parseInt a) \<or> falsy (parseInt b) \<or> falsy (parseInt c))
        \<longrightarrow> parseDate f h (Some s) = None)
   \<and> (dateParse h (trim s) = None \<and> manualIso f h (trim s) = Some r \<and> dateParse h r = None
        \<longrightarrow> parseDate f h (Some s) = None)
   \<and> (parseDate f h v = Some t
        \<longrightarrow> (\<exists>s'. v = Some s' \<and> trim s' \<noteq> []
              \<and> (dateParse h (trim s') = Some t
                  \<or> dateParse h (trim s') = None
                     \<and> (\<exists>r'. manualIso f h (trim s') = Some r' \<and> dateParse h r' = Some t))))"
proof -
  have 1: "parseDate f h None = None" "parseDate f h (Some []) = None"
    by (simp_all add: parseDate_def)
  have 2: "trim s = [] \<longrightarrow> parseDate f h (Some s) = None"
    by (simp add: parseDate_Some)
  have 3: "dateParse h (trim s) = None \<and> length (splitParts (trim s)) < 3
        \<longrightarrow> parseDate f h (Some s) = None"
    by (simp add: parseDate_Some manualIso_short)
  have 4: "dateParse h (trim s) = None \<and> splitParts (trim s) = a # b # c # rest
        \<and> (falsy (parseInt a) \<or> falsy (parseInt b) \<or> falsy (parseInt c))
        \<longrightarrow> parseDate f h (Some s) = None"
  proof (intro impI, elim conjE)
    assume d: "dateParse h (trim s) = None" and p: "splitParts (trim s) = a # b # c # rest"
      and z: "falsy (parseInt a) \<or> falsy (parseInt b) \<or> falsy (parseInt c)"
    have "manualIso f h (trim s) = None" using p z by (rule manualIso_falsy)
    with d show "parseDate f h (Some s) = None" by (simp add: parseDate_Some)
  qed
  have 5: "dateParse h (trim s) = None \<and> manualIso f h (trim s) = Some r \<and> dateParse h r = None
        \<longrightarrow> parseDate f h (Some s) = None"
    by (simp add: parseDate_Some)
  have 6: "parseDate f h v = Some t
        \<longrightarrow> (\<exists>s'. v = Some s' \<and> trim s' \<noteq> []
              \<and> (dateParse h (trim s') = Some t
                  \<or> dateParse h (trim s') = None
                     \<and> (\<exists>r'. manualIso f h (trim s') = Some r' \<and> dateParse h r' = Some t)))"
  proof (cases v)
    case None
    then show ?thesis by (simp add: parseDate_def)
  next
    case (Some s')
    show ?thesis
    proof (cases "dateParse h (trim s')")
      case None
      then show ?thesis
        unfolding Some parseDate_Some by (cases "manualIso f h (trim s')") (simp_all split: if_splits)
    next
      case (Some t')
      then show ?thesis
        unfolding \<open>v = Some s'\<close> parseDate_Some by (simp split: if_splits)
    qed
  qed
  from 1 2 3 4 5 6 show ?thesis by (intro conjI)
qed

lemmas host_eval = exampleHost_def isoDateParse_def isoDay_def isoTime_def isoZone_def
  isoYear_def optField_def digitsField_def startsWith_def timeClip_def istZone_def makeDay_def
  dayFromYear_def monthStart_def inLeapYear_def msPerDay_def asciiLower_def asciiUpper_def

lemma iso_examples:
  "isoDateParse istZone (str ''2024-03-13T00:00:00'') = Some 1710268200000"
  "isoDateParse istZone (str ''2024-03-05'') = Some 1709596800000"
  "isoDateParse istZone (str ''13/03/2024'') = None"
  "isoDateParse istZone (str ''not a date'') = None"
  "isoDateParse istZone (str ''2024-31-31T00:00:00'') = None"
  "isoDateParse istZone (str ''2024-05-2025'') = None"
  "isoDateParse istZone (str ''2025-05-2024T00:00:00'') = None"
  "isoDateParse istZone (str ''2024-05-2025T00:00:00'') = None"
  "isoDateParse istZone (str ''12/2024'') = None"
  "isoDateParse istZone (str ''0/5/2024'') = None"
  "isoDateParse istZone (str ''31/31/2024'') = None"
  by (simp_all add: host_eval str_def isDigit_def digitsVal_def digitOf_def)

lemmas split_eval = splitParts.simps isSeparator_def isWhiteSpace_def str_def

lemma e_trims:
  "trim (str ''12/2024'') = str ''12/2024''"
  "trim (str ''0/5/2024'') = str ''0/5/2024''"
  "trim (str ''31/31/2024'') = str ''31/31/2024''"
  "trim (str ''13/03/2024'') = str ''13/03/2024''"
  "trim (str ''2024-05-2025'') = str ''2024-05-2025''"
  "trim (str ''2e03/07/2024'') = str ''2e03/07/2024''"
  "trim (str ''2024-03-05'') = str ''2024-03-05''"
  "trim (str ''not a date'') = str ''not a date''"
  "trim (str ''   '') = []"
  by (simp_all add: trim_def trimStart_def isWhiteSpace_def str_def)

lemma e_splits:
  "splitParts (str ''12/2024'') = [str ''12'', str ''2024'']"
  "splitParts (str ''0/5/2024'') = [str ''0'', str ''5'', str ''2024'']"
  "splitParts (str ''31/31/2024'') = [str ''31'', str ''31'', str ''2024'']"
  "splitParts (str ''13/03/2024'') = [str ''13'', str ''03'', str ''2024'']"
  "splitParts (str ''2024-05-2025'') = [str ''2024'', str ''05'', str ''2025'']"
  "splitParts (str ''2e03/07/2024'') = [str ''2e03'', str ''07'', str ''2024'']"
  "splitParts (str ''not a date'') = [str ''not'', str ''a'', str ''date'']"
  by (simp_all add: split_eval)

lemma e_ints:
  "parseInt (str ''0'') = Finite 0"
  "parseInt (str ''5'') = Finite 5"
  "parseInt (str ''05'') = Finite 5"
  "parseInt (str ''03'') = Finite 3"
  "parseInt (str ''07'') = Finite 7"
  "parseInt (str ''13'') = Finite 13"
  "parseInt (str ''31'') = Finite 31"
  "parseInt (str ''2024'') = Finite 2024"
  "parseInt (str ''2025'') = Finite 2025"
  "parseInt (str ''2e03'') = Finite 2"
  "parseInt (str ''not'') = NaN"
  by (simp_all add: js_eval round_eval)

lemma e_nums:
  "toNumber (str ''2024'') = Finite 2024"
  "toNumber (str ''2025'') = Finite 2025"
  "toNumber (str ''2e03'') = Finite 2000"
  by (simp_all add: js_eval round_eval)

lemma interpretParts_part000_order:
  "length a = 4 \<and> numGt (toNumber a) 1900 \<Longrightarrow>
     interpretParts Part000 a b c = \<lparr>day = parseInt c, month = parseInt b, year = parseInt a\<rparr>"
  "\<not> (length a = 4 \<and> numGt (toNumber a) 1900) \<Longrightarrow>
     length c = 4 \<and> numGt (toNumber c) 1900 \<and> numLt (toNumber c) 3000 \<Longrightarrow>
     interpretParts Part000 a b c =
       (if exceeds12 (parseInt a)
        then \<lparr>day = parseInt a, month = parseInt b, year = parseInt c\<rparr>
        else \<lparr>day = parseInt b, month = parseInt a, year = parseInt c\<rparr>)"
  by (auto simp: interpretParts.simps)

lemma e_nonempty:
  "str ''2024-05-2025'' \<noteq> []" "str ''2e03/07/2024'' \<noteq> []" "str ''13/03/2024'' \<noteq> []"
  "str ''31/31/2024'' \<noteq> []" "str ''2024-03-05'' \<noteq> []" "str ''12/2024'' \<noteq> []"
  "str ''0/5/2024'' \<noteq> []" "str ''not a date'' \<noteq> []"
  by (simp_all add: str_def)

lemma e_lens:
  "length (str ''2024'') = 4" "length (str ''2025'') = 4" "length (str ''2e03'') = 4"
  "length (str ''13'') = 2" "length (str ''31'') = 2" "length (str ''0'') = 1"
  by (simp_all add: str_def)

lemma e_interp:
  "interpretParts IndexJs (str ''2024'') (str ''05'') (str ''2025'')
     = \<lparr>day = Finite 2024, month = Finite 5, year = Finite 2025\<rparr>"
  "interpretParts Part000 (str ''2024'') (str ''05'') (str ''2025'')
     = \<lparr>day = Finite 2025, month = Finite 5, year = Finite 2024\<rparr>"
  "interpretParts IndexJs (str ''2e03'') (str ''07'') (str ''2024'')
     = \<lparr>day = Finite 7, month = Finite 2, year = Finite 2024\<rparr>"
  "interpretParts Part000 (str ''2e03'') (str ''07'') (str ''2024'')
     = \<lparr>day = Finite 2024, month = Finite 7, year = Finite 2\<rparr>"
  "interpretParts f (str ''13'') (str ''03'') (str ''2024'')
     = \<lparr>day = Finite 13, month = Finite 3, year = Finite 2024\<rparr>"
  "interpretParts f (str ''31'') (str ''31'') (str ''2024'')
     = \<lparr>day = Finite 31, month = Finite 31, year = Finite 2024\<rparr>"
  by (cases f; simp add: interpretParts.simps e_lens e_ints e_nums numGt_def numLt_def
      exceeds12_def)+

lemmas iso_eval = isoString_def numberToString_def intToString_def padStart2_def
  natToString.simps str_def

lemma e_iso:
  "isoString h \<lparr>day = Finite 2024, month = Finite 5, year = Finite 2025\<rparr>
     = str ''2025-05-2024T00:00:00''"
  "isoString h \<lparr>day = Finite 2025, month = Finite 5, year = Finite 2024\<rparr>
     = str ''2024-05-2025T00:00:00''"
  "isoString h \<lparr>day = Finite 7, month = Finite 2, year = Finite 2024\<rparr>
     = str ''2024-02-07T00:00:00''"
  "isoString h \<lparr>day = Finite 2024, month = Finite 7, year = Finite 2\<rparr>
     = str ''2-07-2024T00:00:00''"
  "isoString h \<lparr>day = Finite 13, month = Finite 3, year = Finite 2024\<rparr>
     = str ''2024-03-13T00:00:00''"
  "isoString h \<lparr>day = Finite 31, month = Finite 31, year = Finite 2024\<rparr>
     = str ''2024-31-31T00:00:00''"
  by (simp_all add: iso_eval)

lemma e_manual:
  "manualIso IndexJs h (str ''2024-05-2025'') = Some (str ''2025-05-2024T00:00:00'')"
  "manualIso Part000 h (str ''2024-05-2025'') = Some (str ''2024-05-2025T00:00:00'')"
  "manualIso IndexJs h (str ''2e03/07/2024'') = Some (str ''2024-02-07T00:00:00'')"
  "manualIso Part000 h (str ''2e03/07/2024'') = Some (str ''2-07-2024T00:00:00'')"
  "manualIso f h (str ''13/03/2024'') = Some (str ''2024-03-13T00:00:00'')"
  "manualIso f h (str ''31/31/2024'') = Some (str ''2024-31-31T00:00:00'')"
  by (simp_all add: manualIso_def e_splits trim_part [of _ "str ''2024-05-2025''"]
      trim_part [of _ "str ''2e03/07/2024''"] trim_part [of _ "str ''13/03/2024''"]
      trim_part [of _ "str ''31/31/2024''"] e_interp e_iso falsy_def)

lemma iso_examples2:
  "isoDateParse istZone (str ''2e03/07/2024'') = None"
  "isoDateParse istZone (str ''2-07-2024T00:00:00'') = None"
  "isoDateParse istZone (str ''2024-02-07T00:00:00'') = Some 1707244200000"
  by (simp_all add: host_eval str_def isDigit_def digitsVal_def digitOf_def)

lemma host_fields:
  "dateParse exampleHost = isoDateParse istZone"
  "localTZA exampleHost = istZone"
  "toLowerCase exampleHost = asciiLower"
  "toUpperCase exampleHost = asciiUpper"
  by (simp_all add: exampleHost_def)

lemma e_parse:
  "parseDate IndexJs exampleHost (Some (str ''2024-05-2025'')) = None"
  "parseDate Part000 exampleHost (Some (str ''2024-05-2025'')) = None"
  "parseDate IndexJs exampleHost (Some (str ''2e03/07/2024'')) = Some 1707244200000"
  "parseDate Part000 exampleHost (Some (str ''2e03/07/2024'')) = None"
  "parseDate f exampleHost (Some (str ''13/03/2024'')) = Some 1710268200000"
  "parseDate f exampleHost (Some (str ''31/31/2024'')) = None"
  "parseDate f exampleHost (Some (str ''2024-03-05'')) = Some 1709596800000"
  by (simp_all add: parseDate_Some e_trims e_nonempty host_fields iso_examples iso_examples2
      e_manual)

theorem parseDate_total_witness:
  "parseDate IndexJs exampleHost (Some (str ''   '')) = None
   \<and> parseDate IndexJs exampleHost (Some (str ''12/2024'')) = None
   \<and> parseDate IndexJs exampleHost (Some (str ''0/5/2024'')) = None
   \<and> parseDate Part000 exampleHost (Some (str ''31/31/2024'')) = None
   \<and> (\<exists>s'. Some (str ''13/03/2024'') = Some s' \<and> trim s' \<noteq> []
         \<and> (dateParse exampleHost (trim s') = Some 1710268200000
             \<or> dateParse exampleHost (trim s') = None
                \<and> (\<exists>r'. manualIso Part000 exampleHost (trim s') = Some r'
                          \<and> dateParse exampleHost r' = Some 1710268200000)))"
proof -
  note t1 = parseDate_total [of IndexJs exampleHost "str ''   ''" "[]" "[]" "[]" "[]" "[]" None 0]
  note t2 = parseDate_total [of IndexJs exampleHost "str ''12/2024''" "[]" "[]" "[]" "[]" "[]" None 0]
  note t3 = parseDate_total [of IndexJs exampleHost "str ''0/5/2024''" "str ''0''" "str ''5''"
      "str ''2024''" "[]" "[]" None 0]
  note t4 = parseDate_total [of Part000 exampleHost "str ''31/31/2024''" "[]" "[]" "[]" "[]"
      "str ''2024-31-31T00:00:00''" "Some (str ''13/03/2024'')" 1710268200000]
  have a: "parseDate IndexJs exampleHost (Some (str ''   '')) = None"
    using t1 e_trims(9) by blast
  have "dateParse exampleHost (trim (str ''12/2024'')) = None"
    "length (splitParts (trim (str ''12/2024''))) < 3"
    by (simp_all add: e_trims e_splits host_fields iso_examples)
  then have b: "parseDate IndexJs exampleHost (Some (str ''12/2024'')) = None"
    using t2 by blast
  have "dateParse exampleHost (trim (str ''0/5/2024'')) = None"
    "splitParts (trim (str ''0/5/2024'')) = str ''0'' # str ''5'' # str ''2024'' # []"
    "falsy (parseInt (str ''0''))"
    by (simp_all add: e_trims e_splits host_fields iso_examples e_ints falsy_def)
  then have c: "parseDate IndexJs exampleHost (Some (str ''0/5/2024'')) = None"
    using t3 by blast
  have "dateParse exampleHost (trim (str ''31/31/2024'')) = None"
    "manualIso Part000 exampleHost (trim (str ''31/31/2024'')) = Some (str ''2024-31-31T00:00:00'')"
    "dateParse exampleHost (str ''2024-31-31T00:00:00'') = None"
    by (simp_all add: e_trims host_fields iso_examples e_manual)
  then have d: "parseDate Part000 exampleHost (Some (str ''31/31/2024'')) = None"
    using t4 by blast
  have "parseDate Part000 exampleHost (Some (str ''13/03/2024'')) = Some 1710268200000"
    by (rule e_parse)
  then have e: "\<exists>s'. Some (str ''13/03/2024'') = Some s' \<and> trim s' \<noteq> []
         \<and> (dateParse exampleHost (trim s') = Some 1710268200000
             \<or> dateParse exampleHost (trim s') = None
                \<and> (\<exists>r'. manualIso Part000 exampleHost (trim s') = Some r'
                          \<and> dateParse exampleHost r' = Some 1710268200000))"
    using t4 by blast
  from a b c d e show ?thesis by blast
qed

text \<open>
  Claim C2. The claim has the fallback test the first piece for a year before the
  last one, and so does the second file:
  \<^verbatim>\<open>if (a.length === 4 && Number(a) > 1900) {...} else if (c.length === 4 && ...\<close>.
  In \<^verbatim>\<open>index.js\<close> the two tests are in the other order, under the comment
  \<^verbatim>\<open>// If 4-digit year appears first\<close>, so a string whose first and last pieces both pass
  is read as day, month, year. \<^verbatim>\<open>"2024-05-2025"\<close>, which the example host's direct parse
  rejects, splits into 2024, 05, 2025; its first piece has four characters and is
  greater than 1900, yet \<^verbatim>\<open>index.js\<close> takes 2024 for the day and 2025 for the year and
  rebuilds \<^verbatim>\<open>"2025-05-2024T00:00:00"\<close>, where the claimed order takes 2024 for the year.
  The difference reaches the result: of \<^verbatim>\<open>"2e03/07/2024"\<close>, whose first piece has four
  characters and is the number 2000, \<^verbatim>\<open>index.js\<close> makes the 7th of February 2024 and the
  claimed order makes nothing.
\<close>

theorem parseDate_index_tests_last_first:
  "dateParse exampleHost (str ''2024-05-2025'') = None
   \<and> splitParts (str ''2024-05-2025'') = [str ''2024'', str ''05'', str ''2025'']
   \<and> length (str ''2024'') = 4
   \<and> numGt (toNumber (str ''2024'')) 1900
   \<and> interpretParts IndexJs (str ''2024'') (str ''05'') (str ''2025'')
       = \<lparr>day = Finite 2024, month = Finite 5, year = Finite 2025\<rparr>
   \<and> interpretParts Part000 (str ''2024'') (str ''05'') (str ''2025'')
       = \<lparr>day = Finite 2025, month = Finite 5, year = Finite 2024\<rparr>
   \<and> manualIso IndexJs exampleHost (str ''2024-05-2025'') = Some (str ''2025-05-2024T00:00:00'')
   \<and> manualIso Part000 exampleHost (str ''2024-05-2025'') = Some (str ''2024-05-2025T00:00:00'')
   \<and> dateParse exampleHost (str ''2e03/07/2024'') = None
   \<and> splitParts (str ''2e03/07/2024'') = [str ''2e03'', str ''07'', str ''2024'']
   \<and> length (str ''2e03'') = 4
   \<and> toNumber (str ''2e03'') = Finite 2000
   \<and> parseDate IndexJs exampleHost (Some (str ''2e03/07/2024'')) = Some 1707244200000
   \<and> dateParse exampleHost (str ''2024-02-07T00:00:00'') = Some 1707244200000
   \<and> parseDate Part000 exampleHost (Some (str ''2e03/07/2024'')) = None"
  by (simp add: host_fields iso_examples iso_examples2 e_splits e_lens e_nums e_interp e_manual
      e_parse numGt_def)

section \<open>Properties of the calendar\<close>

lemma monthFromDay_range: "0 \<le> monthFromDay d l \<and> monthFromDay d l \<le> 11"
  by (simp add: monthFromDay_def Let_def)

lemma makeDay_roundtrip:
  "makeDay (yearFromTime t) (monthFromTime t) (dateFromTime t) = dayOf t"
proof -
  have r: "0 \<le> monthFromTime t \<and> monthFromTime t \<le> 11"
    unfolding monthFromTime_def by (rule monthFromDay_range)
  then have "monthFromTime t div 12 = 0" "monthFromTime t mod 12 = monthFromTime t"
    by simp_all
  then show ?thesis
    by (simp add: makeDay_def dateFromTime_def dayWithinYear_def Let_def)
qed

lemma makeDay_shift: "makeDay y m (dt + k) = makeDay y m dt + k"
  by (simp add: makeDay_def Let_def)

lemma div_bounds:
  fixes c x :: int
  assumes "0 < c"
  shows "c * (x div c) \<le> x" and "x < c * (x div c) + c"
  using mult_div_mod_eq [of c x] pos_mod_sign [OF assms, of x] pos_mod_bound [OF assms, of x]
  by linarith+

lemma div_step:
  fixes c x :: int
  assumes c: "0 < c"
  shows "(x + 1) div c = x div c + (if (x + 1) mod c = 0 then 1 else 0)"
proof -
  let ?q = "x div c" and ?r = "x mod c"
  have x: "x = c * ?q + ?r" using mult_div_mod_eq [of c x] by linarith
  have r: "0 \<le> ?r" "?r < c" using c by simp_all
  show ?thesis
  proof (cases "?r + 1 < c")
    case True
    have e: "x + 1 = c * ?q + (?r + 1)" using x by linarith
    have "(x + 1) div c = ?q" using e r True by (intro int_div_pos_eq [of _ c ?q "?r + 1"]) linarith+
    moreover have "(x + 1) mod c = ?r + 1"
      using e r True by (intro int_mod_pos_eq [of _ c ?q "?r + 1"]) linarith+
    ultimately show ?thesis using r by simp
  next
    case False
    then have rc: "?r + 1 = c" using r by linarith
    have "c * (?q + 1) = c * ?q + c" by (simp add: algebra_simps)
    then have e: "x + 1 = c * (?q + 1) + 0" using mult_div_mod_eq [of c x] rc by linarith
    have "(x + 1) div c = ?q + 1" using e c by (intro int_div_pos_eq [of _ c "?q + 1" 0]) linarith+
    moreover have "(x + 1) mod c = 0"
      using e c by (intro int_mod_pos_eq [of _ c "?q + 1" 0]) linarith+
    ultimately show ?thesis by simp
  qed
qed

lemma leap_mods:
  "(y - 1968) mod 4 = (y::int) mod 4" "(y - 1900) mod 100 = y mod 100" "(y - 1600) mod 400 = y mod 400"
proof -
  have "(y + 4 * (- 492)) mod 4 = y mod 4" by (rule mod_mult_self2)
  then show "(y - 1968) mod 4 = y mod 4" by simp
  have "(y + 100 * (- 19)) mod 100 = y mod 100" by (rule mod_mult_self2)
  then show "(y - 1900) mod 100 = y mod 100" by simp
  have "(y + 400 * (- 4)) mod 400 = y mod 400" by (rule mod_mult_self2)
  then show "(y - 1600) mod 400 = y mod 400" by simp
qed

lemma dayFromYear_step:
  "dayFromYear (y + 1) = dayFromYear y + (if inLeapYear y then 366 else 365)"
proof -
  define A B C where "A = (y - 1969) div 4" and "B = (y - 1901) div 100" and "C = (y - 1601) div 400"
  define A' B' C' where "A' = (y + 1 - 1969) div 4" and "B' = (y + 1 - 1901) div 100"
    and "C' = (y + 1 - 1601) div 400"
  have e4: "y + 1 - 1969 = (y - 1969) + 1" "(y - 1969) + 1 = y - 1968" by linarith+
  have e100: "y + 1 - 1901 = (y - 1901) + 1" "(y - 1901) + 1 = y - 1900" by linarith+
  have e400: "y + 1 - 1601 = (y - 1601) + 1" "(y - 1601) + 1 = y - 1600" by linarith+
  have a: "A' = A + (if y mod 4 = 0 then 1 else 0)"
    unfolding A'_def A_def e4(1) using div_step [of 4 "y - 1969"] unfolding e4(2) leap_mods by simp
  have b: "B' = B + (if y mod 100 = 0 then 1 else 0)"
    unfolding B'_def B_def e100(1) using div_step [of 100 "y - 1901"] unfolding e100(2) leap_mods by simp
  have c: "C' = C + (if y mod 400 = 0 then 1 else 0)"
    unfolding C'_def C_def e400(1) using div_step [of 400 "y - 1601"] unfolding e400(2) leap_mods by simp
  have d: "y mod 400 = 0 \<Longrightarrow> y mod 100 = 0"
    using dvd_trans [of 100 400 y] by (simp add: mod_eq_0_iff_dvd)
  have e: "y mod 100 = 0 \<Longrightarrow> y mod 4 = 0"
    using dvd_trans [of 4 100 y] by (simp add: mod_eq_0_iff_dvd)
  have l: "dayFromYear (y + 1) = 365 * (y + 1 - 1970) + A' - B' + C'"
    by (simp only: dayFromYear_def A'_def B'_def C'_def)
  have r: "dayFromYear y = 365 * (y - 1970) + A - B + C"
    by (simp only: dayFromYear_def A_def B_def C_def)
  consider (p400) "y mod 400 = 0" | (p100) "y mod 400 \<noteq> 0" "y mod 100 = 0"
    | (p4) "y mod 100 \<noteq> 0" "y mod 4 = 0" | (p) "y mod 4 \<noteq> 0"
    by blast
  then show ?thesis
  proof cases
    case p400
    have m100: "y mod 100 = 0" by (rule d) (rule p400)
    have m4: "y mod 4 = 0" by (rule e) (rule m100)
    from p400 m100 m4 have "inLeapYear y" "A' = A + 1" "B' = B + 1" "C' = C + 1"
      using a b c by (simp_all only: inLeapYear_def if_True simp_thms)
    then show ?thesis unfolding l r by simp
  next
    case p100
    have y4: "y mod 4 = 0" by (rule e) (rule p100(2))
    with p100 have "\<not> inLeapYear y" "A' = A + 1" "B' = B + 1" "C' = C"
      using a b c by (simp_all only: inLeapYear_def if_True if_False simp_thms add_0_right)
    then show ?thesis unfolding l r by simp
  next
    case p4
    have "y mod 400 \<noteq> 0" using p4(1) d by (rule contrapos_nn)
    with p4 have "inLeapYear y" "A' = A + 1" "B' = B" "C' = C"
      using a b c by (simp_all only: inLeapYear_def if_True if_False simp_thms add_0_right)
    then show ?thesis unfolding l r by simp
  next
    case p
    have n100: "y mod 100 \<noteq> 0" using p e by (rule contrapos_nn)
    have n400: "y mod 400 \<noteq> 0" using n100 d by (rule contrapos_nn)
    from p n100 n400 have "\<not> inLeapYear y" "A' = A" "B' = B" "C' = C"
      using a b c by (simp_all only: inLeapYear_def if_True if_False simp_thms add_0_right)
    then show ?thesis unfolding l r by simp
  qed
qed

lemma est_low: "dayFromYear (1970 + (400 * d) div 146097 - 1) \<le> d"
proof -
  define n where "n = (400 * d) div 146097"
  have n: "146097 * n \<le> 400 * d" unfolding n_def by (rule div_bounds(1)) simp
  have a: "4 * ((1970 + n - 1 - 1969) div 4) \<le> 1970 + n - 1 - 1969" by (rule div_bounds(1)) simp
  have b: "1970 + n - 1 - 1901 < 100 * ((1970 + n - 1 - 1901) div 100) + 100" by (rule div_bounds(2)) simp
  have c: "400 * ((1970 + n - 1 - 1601) div 400) \<le> 1970 + n - 1 - 1601" by (rule div_bounds(1)) simp
  define P Q R where "P = (1970 + n - 1 - 1969) div 4" and "Q = (1970 + n - 1 - 1901) div 100"
    and "R = (1970 + n - 1 - 1601) div 400"
  have "365 * n - 365 + P - Q + R \<le> d"
    using n a b c unfolding P_def [symmetric] Q_def [symmetric] R_def [symmetric] by linarith
  moreover have "365 * (1970 + n - 1 - 1970) = 365 * n - 365" by simp
  ultimately have "365 * (1970 + n - 1 - 1970) + P - Q + R \<le> d" by simp
  then show ?thesis
    unfolding dayFromYear_def n_def P_def Q_def R_def .
qed

lemma est_high: "d < dayFromYear (1970 + (400 * d) div 146097 + 2)"
proof -
  define n where "n = (400 * d) div 146097"
  have n: "400 * d < 146097 * n + 146097" unfolding n_def by (rule div_bounds(2)) simp
  have a: "1970 + n + 2 - 1969 < 4 * ((1970 + n + 2 - 1969) div 4) + 4" by (rule div_bounds(2)) simp
  have b: "100 * ((1970 + n + 2 - 1901) div 100) \<le> 1970 + n + 2 - 1901" by (rule div_bounds(1)) simp
  have c: "1970 + n + 2 - 1601 < 400 * ((1970 + n + 2 - 1601) div 400) + 400" by (rule div_bounds(2)) simp
  define P Q R where "P = (1970 + n + 2 - 1969) div 4" and "Q = (1970 + n + 2 - 1901) div 100"
    and "R = (1970 + n + 2 - 1601) div 400"
  have "d < 365 * n + 730 + P - Q + R"
    using n a b c unfolding P_def [symmetric] Q_def [symmetric] R_def [symmetric] by linarith
  moreover have "365 * (1970 + n + 2 - 1970) = 365 * n + 730" by simp
  ultimately have "d < 365 * (1970 + n + 2 - 1970) + P - Q + R" by simp
  then show ?thesis
    unfolding dayFromYear_def n_def P_def Q_def R_def .
qed

lemma dayFromYear_less: "dayFromYear y < dayFromYear (y + 1)"
  unfolding dayFromYear_step by simp

lemma yearFromDay_bounds:
  "dayFromYear (yearFromDay d) \<le> d \<and> d < dayFromYear (yearFromDay d + 1)"
proof -
  define y0 where "y0 = 1970 + (400 * d) div 146097"
  have lo: "dayFromYear (y0 - 1) \<le> d" unfolding y0_def by (rule est_low)
  have hi: "d < dayFromYear (y0 + 1 + 1)" using est_high [of d] unfolding y0_def by (simp add: add.assoc)
  have y: "yearFromDay d = (if dayFromYear (y0 + 1) \<le> d then y0 + 1
      else if dayFromYear y0 \<le> d then y0 else y0 - 1)"
    unfolding yearFromDay_def y0_def Let_def ..
  have m: "y0 - 1 + 1 = y0" by simp
  show ?thesis
  proof (cases "dayFromYear (y0 + 1) \<le> d")
    case True
    then show ?thesis using hi unfolding y by simp
  next
    case False
    note f1 = this
    show ?thesis
    proof (cases "dayFromYear y0 \<le> d")
      case True
      then show ?thesis using f1 unfolding y by simp
    next
      case False
      then show ?thesis using f1 lo unfolding y by (simp add: m)
    qed
  qed
qed

lemma yearFromDay_nonneg:
  assumes "0 \<le> d"
  shows "1970 \<le> yearFromDay d"
proof -
  define n where "n = (400 * d) div 146097"
  have n0: "0 \<le> n" unfolding n_def using assms by (simp add: pos_imp_zdiv_nonneg_iff)
  have y: "yearFromDay d = (if dayFromYear (1970 + n + 1) \<le> d then 1970 + n + 1
      else if dayFromYear (1970 + n) \<le> d then 1970 + n else 1970 + n - 1)"
    unfolding yearFromDay_def n_def Let_def ..
  have z: "dayFromYear 1970 = 0" by (simp add: dayFromYear_def)
  show ?thesis
  proof (cases "n = 0")
    case True
    then show ?thesis using assms z unfolding y by simp
  next
    case False
    then have "1 \<le> n" using n0 by linarith
    then show ?thesis unfolding y by simp
  qed
qed

lemma monthStart_le: "0 \<le> dwy \<Longrightarrow> monthStart (monthFromDay dwy l) l \<le> dwy"
  by (simp add: monthStart_def monthFromDay_def Let_def)

lemma monthStart_next:
  "monthFromDay dwy l \<noteq> 11 \<Longrightarrow> dwy < monthStart (monthFromDay dwy l + 1) l"
  by (simp add: monthStart_def monthFromDay_def Let_def split: if_splits)

lemma dayOf_bounds: "dayOf t * msPerDay \<le> t \<and> t < dayOf t * msPerDay + msPerDay"
  using div_bounds [of msPerDay t] by (simp add: dayOf_def msPerDay_def mult.commute)

lemma local_year:
  assumes "0 \<le> t"
  shows "1970 \<le> yearFromTime t"
proof -
  have "0 \<le> dayOf t" using assms by (simp add: dayOf_def msPerDay_def pos_imp_zdiv_nonneg_iff)
  then show ?thesis unfolding yearFromTime_def by (rule yearFromDay_nonneg)
qed

lemma monthStart_low:
  "dwy < (if l then 366 else 365) \<Longrightarrow> dwy - 30 \<le> monthStart (monthFromDay dwy l) l"
  by (simp add: monthStart_def monthFromDay_def Let_def split: if_splits)

lemma monthStart_high:
  "0 \<le> dwy \<Longrightarrow> monthFromDay dwy l \<noteq> 11 \<Longrightarrow> monthStart (monthFromDay dwy l + 1) l \<le> dwy + 31"
  by (simp add: monthStart_def monthFromDay_def Let_def split: if_splits)

lemma month_days:
  fixes t :: int
  defines "y \<equiv> yearFromTime t" and "m \<equiv> monthFromTime t"
  shows "makeDay y m 1 \<le> dayOf t" and "dayOf t < makeDay y (m + 1) 1"
    and "dayOf t - 30 \<le> makeDay y m 1" and "makeDay y (m + 1) 1 \<le> dayOf t + 31"
proof -
  let ?l = "inLeapYear y"
  let ?w = "dayWithinYear t"
  have mr: "0 \<le> m \<and> m \<le> 11" unfolding m_def monthFromTime_def by (rule monthFromDay_range)
  then have r0: "m div 12 = 0" "m mod 12 = m" by simp_all
  have yb: "dayFromYear y \<le> dayOf t" "dayOf t < dayFromYear (y + 1)"
    using yearFromDay_bounds [of "dayOf t"] by (simp_all add: y_def yearFromTime_def)
  have w0: "0 \<le> ?w" using yb by (simp add: dayWithinYear_def y_def)
  have w1: "?w < (if ?l then 366 else 365)"
    using yb(2) dayFromYear_step [of y] by (simp add: dayWithinYear_def y_def split: if_splits)
  have md: "m = monthFromDay ?w ?l" by (simp add: m_def monthFromTime_def y_def)
  have s: "makeDay y m 1 = dayFromYear y + monthStart m ?l"
    by (simp add: makeDay_def Let_def r0)
  have wd: "dayOf t = dayFromYear y + ?w" by (simp add: dayWithinYear_def y_def)
  have "monthStart m ?l \<le> ?w"
    using monthStart_le [OF w0, of ?l] by (simp only: md [symmetric])
  then show "makeDay y m 1 \<le> dayOf t"
    unfolding s wd by simp
  have "?w - 30 \<le> monthStart m ?l"
    using monthStart_low [OF w1] by (simp only: md [symmetric])
  then show "dayOf t - 30 \<le> makeDay y m 1"
    unfolding s wd by simp
  show "dayOf t < makeDay y (m + 1) 1"
  proof (cases "m = 11")
    case True
    then have "makeDay y (m + 1) 1 = dayFromYear (y + 1)"
      by (simp add: makeDay_def Let_def monthStart_def)
    then show ?thesis using yb by simp
  next
    case False
    then have r: "(m + 1) div 12 = 0" "(m + 1) mod 12 = m + 1" using mr by simp_all
    have n: "monthFromDay ?w ?l \<noteq> 11" using False md by simp
    have "?w < monthStart (m + 1) ?l"
      using monthStart_next [OF n] by (simp only: md [symmetric])
    then show ?thesis unfolding wd by (simp add: makeDay_def Let_def r)
  qed
  show "makeDay y (m + 1) 1 \<le> dayOf t + 31"
  proof (cases "m = 11")
    case True
    then have e: "makeDay y (m + 1) 1 = dayFromYear (y + 1)"
      by (simp add: makeDay_def Let_def monthStart_def)
    have "monthStart m ?l \<le> ?w"
      using monthStart_le [OF w0, of ?l] by (simp only: md [symmetric])
    then have "334 + (if ?l then 1 else 0) \<le> ?w"
      using True by (simp add: monthStart_def)
    then show ?thesis
      unfolding e wd using dayFromYear_step [of y] by (simp split: if_splits)
  next
    case False
    then have r: "(m + 1) div 12 = 0" "(m + 1) mod 12 = m + 1" using mr by simp_all
    have n: "monthFromDay ?w ?l \<noteq> 11" using False md by simp
    have "monthStart (m + 1) ?l \<le> ?w + 31"
      using monthStart_high [OF w0 n] by (simp only: md [symmetric])
    then show ?thesis unfolding wd by (simp add: makeDay_def Let_def r)
  qed
qed

lemma timeClip_Some: "\<bar>t\<bar> \<le> 8640000000000000 \<Longrightarrow> timeClip t = Some t"
  by (simp add: timeClip_def)

lemma newDate_modern:
  "1970 \<le> y \<Longrightarrow> newDate h y m dt = timeClip (utcTime h (makeDay y m dt * msPerDay))"
  by (simp add: newDate_def Let_def)

lemma const_zone:
  assumes "\<forall>t u. localTZA h t u = c"
  shows "localTime h t = t + c" and "utcTime h t = t - c"
  using assms by (simp_all add: localTime_def utcTime_def)

lemma local_fields:
  assumes "\<forall>t u. localTZA h t u = c"
  shows "getFullYear h t = yearFromTime (t + c)" and "getMonth h t = monthFromTime (t + c)"
    and "getDate h t = dateFromTime (t + c)"
  by (simp_all add: getFullYear_def getMonth_def getDate_def const_zone [OF assms])

lemma startOfToday_eq:
  assumes z: "\<forall>t u. localTZA h t u = c" and "0 \<le> now + c"
  shows "startOfToday h now = timeClip (dayOf (now + c) * msPerDay - c)"
  using local_year [OF assms(2)]
  by (simp add: startOfToday_def newDate_modern local_fields [OF z] const_zone [OF z]
      makeDay_roundtrip)

lemma endOfToday_eq:
  assumes z: "\<forall>t u. localTZA h t u = c" and "0 \<le> now + c"
  shows "endOfToday h now = timeClip (dayOf (now + c) * msPerDay - c + msPerDay)"
proof -
  let ?t = "now + c"
  have "makeDay (yearFromTime ?t) (monthFromTime ?t) (dateFromTime ?t + 1) = dayOf ?t + 1"
    by (simp only: makeDay_shift makeDay_roundtrip)
  then have "endOfToday h now = timeClip ((dayOf ?t + 1) * msPerDay - c)"
    using local_year [OF assms(2)]
    by (simp add: endOfToday_def newDate_modern local_fields [OF z] const_zone [OF z])
  moreover have "(dayOf ?t + 1) * msPerDay - c = dayOf ?t * msPerDay - c + msPerDay"
    by (simp add: distrib_right)
  ultimately show ?thesis by simp
qed

lemma oneWeekAgo_eq:
  assumes z: "\<forall>t u. localTZA h t u = c"
  shows "oneWeekAgo h now = timeClip (now - 7 * msPerDay)"
proof -
  let ?t = "now + c"
  have "makeDay (yearFromTime ?t) (monthFromTime ?t) (dateFromTime ?t + (- 7)) = dayOf ?t + (- 7)"
    by (simp only: makeDay_shift makeDay_roundtrip)
  then have m: "makeDay (yearFromTime ?t) (monthFromTime ?t) (dateFromTime ?t - 7) = dayOf ?t - 7"
    by simp
  have s: "dayOf ?t * msPerDay + timeWithinDay ?t = ?t"
    by (simp add: dayOf_def timeWithinDay_def)
  have "oneWeekAgo h now = timeClip ((dayOf ?t - 7) * msPerDay + timeWithinDay ?t - c)"
    by (simp add: oneWeekAgo_def setDate_def Let_def local_fields [OF z] const_zone [OF z] m)
  also have "(dayOf ?t - 7) * msPerDay + timeWithinDay ?t - c
      = (dayOf ?t * msPerDay + timeWithinDay ?t) - 7 * msPerDay - c"
    by (simp add: left_diff_distrib)
  also have "\<dots> = now - 7 * msPerDay"
    unfolding s by simp
  finally show ?thesis .
qed

lemma startOfMonth_eq:
  assumes z: "\<forall>t u. localTZA h t u = c" and "0 \<le> now + c"
  shows "startOfMonth h now
     = timeClip (makeDay (yearFromTime (now + c)) (monthFromTime (now + c)) 1 * msPerDay - c)"
  using local_year [OF assms(2)]
  by (simp add: startOfMonth_def newDate_modern local_fields [OF z] const_zone [OF z])

lemma endOfMonth_eq:
  assumes z: "\<forall>t u. localTZA h t u = c" and "0 \<le> now + c"
  shows "endOfMonth h now
     = timeClip (makeDay (yearFromTime (now + c)) (monthFromTime (now + c) + 1) 1 * msPerDay - c)"
  using local_year [OF assms(2)]
  by (simp add: endOfMonth_def newDate_modern local_fields [OF z] const_zone [OF z])

section \<open>Properties of the period filter\<close>

lemma windows:
  assumes z: "\<forall>t u. localTZA h t u = c" and cb: "\<bar>c\<bar> \<le> msPerDay" and n0: "0 \<le> now + c"
    and n1: "now \<le> 8640000000000000 - 40 * msPerDay"
  defines "D \<equiv> dayOf (now + c)"
    and "S \<equiv> makeDay (yearFromTime (now + c)) (monthFromTime (now + c)) 1"
    and "E \<equiv> makeDay (yearFromTime (now + c)) (monthFromTime (now + c) + 1) 1"
  shows "startOfToday h now = Some (D * msPerDay - c)"
    and "endOfToday h now = Some (D * msPerDay - c + msPerDay)"
    and "oneWeekAgo h now = Some (now - 7 * msPerDay)"
    and "startOfMonth h now = Some (S * msPerDay - c)"
    and "endOfMonth h now = Some (E * msPerDay - c)"
    and "S \<le> D" and "D < E"
    and "D * msPerDay - c \<le> now" and "now < D * msPerDay - c + msPerDay"
proof -
  have d: "D * 86400000 \<le> now + c" "now + c < D * 86400000 + 86400000"
    using dayOf_bounds [of "now + c"] by (simp_all add: D_def msPerDay_def)
  have m: "S \<le> D" "D < E" "D - 30 \<le> S" "E \<le> D + 31"
    using month_days [of "now + c"] by (simp_all add: D_def S_def E_def)
  have c: "- 86400000 \<le> c" "c \<le> 86400000"
    using cb by (simp_all add: msPerDay_def abs_le_iff)
  have n: "now \<le> 8640000000000000 - 40 * 86400000"
    using n1 by (simp add: msPerDay_def)
  have "\<bar>D * 86400000 - c\<bar> \<le> 8640000000000000"
    using d c n n0 by linarith
  then show "startOfToday h now = Some (D * msPerDay - c)"
    by (simp add: startOfToday_eq [OF z n0] D_def [symmetric] msPerDay_def timeClip_Some)
  have "\<bar>D * 86400000 - c + 86400000\<bar> \<le> 8640000000000000"
    using d c n n0 by linarith
  then show "endOfToday h now = Some (D * msPerDay - c + msPerDay)"
    by (simp add: endOfToday_eq [OF z n0] D_def [symmetric] msPerDay_def timeClip_Some)
  have "\<bar>now - 7 * 86400000\<bar> \<le> 8640000000000000"
    using d c n n0 by linarith
  then show "oneWeekAgo h now = Some (now - 7 * msPerDay)"
    by (simp add: oneWeekAgo_eq [OF z] msPerDay_def timeClip_Some)
  have "\<bar>S * 86400000 - c\<bar> \<le> 8640000000000000"
    using d c n n0 m by linarith
  then show "startOfMonth h now = Some (S * msPerDay - c)"
    by (simp add: startOfMonth_eq [OF z n0] S_def [symmetric] msPerDay_def timeClip_Some)
  have "\<bar>E * 86400000 - c\<bar> \<le> 8640000000000000"
    using d c n n0 m by linarith
  then show "endOfMonth h now = Some (E * msPerDay - c)"
    by (simp add: endOfMonth_eq [OF z n0] E_def [symmetric] msPerDay_def timeClip_Some)
  show "S \<le> D" "D < E" by (rule m)+
  show "D * msPerDay - c \<le> now" "now < D * msPerDay - c + msPerDay"
    using d by (simp_all add: msPerDay_def)
qed

lemma period_names_distinct:
  "str ''today'' \<noteq> str ''this_week''" "str ''today'' \<noteq> str ''this_month''"
  "str ''this_week'' \<noteq> str ''this_month''"
  by (simp_all add: str_def)

lemma keepRow_window:
  "keepRow f h now period dateColumn r =
     (case parseDate f h (r dateColumn) of
        None \<Rightarrow> False
      | Some d \<Rightarrow>
          (period = str ''today''
             \<longrightarrow> notBefore d (startOfToday h now) \<and> before d (endOfToday h now))
          \<and> (period = str ''this_week'' \<longrightarrow> notBefore d (oneWeekAgo h now) \<and> d \<le> now)
          \<and> (period = str ''this_month''
             \<longrightarrow> notBefore d (startOfMonth h now) \<and> before d (endOfMonth h now)))"
  using period_names_distinct by (auto simp: keepRow_def split: option.splits)

text \<open>
  Claim C3. The period filter keeps exactly the records whose date field parses to a
  date \<open>d\<close> inside the window of the period: for \<^verbatim>\<open>"today"\<close> from the start of today to
  before the start of the next day, for \<^verbatim>\<open>"this_week"\<close> from seven days before \<open>now\<close>
  to \<open>now\<close>, both included, for \<^verbatim>\<open>"this_month"\<close> from the first of the month to before
  the first of the next month; any other period keeps every record whose date parses,
  and a record whose date does not parse is never kept. The bounds are the dates the
  source builds from the local fields of \<open>now\<close>. Where local time is a fixed offset \<open>c\<close>
  from UTC of at most a day, and \<open>now\<close> lies between local 1970 and forty days before
  the end of the time values, they are: local midnight of the day of \<open>now\<close>, which is
  not after \<open>now\<close>; that midnight plus one day, which is after \<open>now\<close>; \<open>now\<close> minus seven
  times 24 hours; local midnight of the first of the month of \<open>now\<close> and of the first of
  the next month, which are not after, and after, the day of \<open>now\<close>.
\<close>

theorem filterByPeriod_windows:
  "filterByPeriod f h now rows period dateColumn
     = filter (\<lambda>r. case parseDate f h (r dateColumn) of
                      None \<Rightarrow> False
                    | Some d \<Rightarrow>
                        (period = str ''today''
                           \<longrightarrow> notBefore d (startOfToday h now) \<and> before d (endOfToday h now))
                        \<and> (period = str ''this_week''
                           \<longrightarrow> notBefore d (oneWeekAgo h now) \<and> d \<le> now)
                        \<and> (period = str ''this_month''
                           \<longrightarrow> notBefore d (startOfMonth h now) \<and> before d (endOfMonth h now)))
         rows
   \<and> (parseDate f h (r dateColumn) = None
        \<longrightarrow> r \<notin> set (filterByPeriod f h now rows period dateColumn))
   \<and> notBefore d (Some x) = (x \<le> d) \<and> before d (Some x) = (d < x)
   \<and> ((\<forall>t u. localTZA h t u = c) \<and> \<bar>c\<bar> \<le> msPerDay \<and> 0 \<le> now + c
        \<and> now \<le> 8640000000000000 - 40 * msPerDay
        \<longrightarrow> startOfToday h now = Some (dayOf (now + c) * msPerDay - c)
            \<and> endOfToday h now = Some (dayOf (now + c) * msPerDay - c + msPerDay)
            \<and> oneWeekAgo h now = Some (now - 7 * msPerDay)
            \<and> startOfMonth h now
                = Some (makeDay (yearFromTime (now + c)) (monthFromTime (now + c)) 1 * msPerDay - c)
            \<and> endOfMonth h now
                = Some (makeDay (yearFromTime (now + c)) (monthFromTime (now + c) + 1) 1 * msPerDay - c)
            \<and> makeDay (yearFromTime (now + c)) (monthFromTime (now + c)) 1 \<le> dayOf (now + c)
            \<and> dayOf (now + c) < makeDay (yearFromTime (now + c)) (monthFromTime (now + c) + 1) 1
            \<and> dayOf (now + c) * msPerDay - c \<le> now
            \<and> now < dayOf (now + c) * msPerDay - c + msPerDay)"
proof -
  have 1: "filterByPeriod f h now rows period dateColumn
     = filter (\<lambda>r. case parseDate f h (r dateColumn) of
                      None \<Rightarrow> False
                    | Some d \<Rightarrow>
                        (period = str ''today''
                           \<longrightarrow> notBefore d (startOfToday h now) \<and> before d (endOfToday h now))
                        \<and> (period = str ''this_week''
                           \<longrightarrow> notBefore d (oneWeekAgo h now) \<and> d \<le> now)
                        \<and> (period = str ''this_month''
                           \<longrightarrow> notBefore d (startOfMonth h now) \<and> before d (endOfMonth h now)))
         rows"
    unfolding filterByPeriod_def by (rule filter_cong) (simp_all add: keepRow_window)
  have 2: "parseDate f h (r dateColumn) = None
        \<longrightarrow> r \<notin> set (filterByPeriod f h now rows period dateColumn)"
    by (simp add: filterByPeriod_def keepRow_def)
  have 3: "notBefore d (Some x) = (x \<le> d)" "before d (Some x) = (d < x)"
    by (simp_all add: notBefore_def before_def)
  have 4: "(\<forall>t u. localTZA h t u = c) \<and> \<bar>c\<bar> \<le> msPerDay \<and> 0 \<le> now + c
        \<and> now \<le> 8640000000000000 - 40 * msPerDay
        \<longrightarrow> startOfToday h now = Some (dayOf (now + c) * msPerDay - c)
            \<and> endOfToday h now = Some (dayOf (now + c) * msPerDay - c + msPerDay)
            \<and> oneWeekAgo h now = Some (now - 7 * msPerDay)
            \<and> startOfMonth h now
                = Some (makeDay (yearFromTime (now + c)) (monthFromTime (now + c)) 1 * msPerDay - c)
            \<and> endOfMonth h now
                = Some (makeDay (yearFromTime (now + c)) (monthFromTime (now + c) + 1) 1 * msPerDay - c)
            \<and> makeDay (yearFromTime (now + c)) (monthFromTime (now + c)) 1 \<le> dayOf (now + c)
            \<and> dayOf (now + c) < makeDay (yearFromTime (now + c)) (monthFromTime (now + c) + 1) 1
            \<and> dayOf (now + c) * msPerDay - c \<le> now
            \<and> now < dayOf (now + c) * msPerDay - c + msPerDay"
  proof (intro impI, elim conjE)
    assume a: "\<forall>t u. localTZA h t u = c" "\<bar>c\<bar> \<le> msPerDay" "0 \<le> now + c"
      "now \<le> 8640000000000000 - 40 * msPerDay"
    note w = windows [OF a]
    from w show "startOfToday h now = Some (dayOf (now + c) * msPerDay - c)
            \<and> endOfToday h now = Some (dayOf (now + c) * msPerDay - c + msPerDay)
            \<and> oneWeekAgo h now = Some (now - 7 * msPerDay)
            \<and> startOfMonth h now
                = Some (makeDay (yearFromTime (now + c)) (monthFromTime (now + c)) 1 * msPerDay - c)
            \<and> endOfMonth h now
                = Some (makeDay (yearFromTime (now + c)) (monthFromTime (now + c) + 1) 1 * msPerDay - c)
            \<and> makeDay (yearFromTime (now + c)) (monthFromTime (now + c)) 1 \<le> dayOf (now + c)
            \<and> dayOf (now + c) < makeDay (yearFromTime (now + c)) (monthFromTime (now + c) + 1) 1
            \<and> dayOf (now + c) * msPerDay - c \<le> now
            \<and> now < dayOf (now + c) * msPerDay - c + msPerDay"
      by (intro conjI)
  qed
  from 1 2 3 4 show ?thesis by (intro conjI)
qed

text \<open>
  Claim C8. The output of the period filter is a subsequence of its input: the kept
  records stand in the order they had in the input, and no record occurs more often in
  the output than in the input.
\<close>

theorem filterByPeriod_subseq:
  "subseq (filterByPeriod f h now rows period dateColumn) rows
   \<and> length (filterByPeriod f h now rows period dateColumn) \<le> length rows
   \<and> (\<forall>r. count_list (filterByPeriod f h now rows period dateColumn) r \<le> count_list rows r)"
proof -
  have "count_list (filter P xs) r \<le> count_list xs r" for P :: "row \<Rightarrow> bool" and xs r
    by (induction xs) simp_all
  then show ?thesis by (simp add: filterByPeriod_def)
qed

lemma e_notadate: "parseDate f exampleHost (Some (str ''not a date'')) = None"
proof -
  have "falsy (parseInt (str ''not''))"
    by (simp add: e_ints falsy_def)
  then have "manualIso f exampleHost (str ''not a date'') = None"
    using manualIso_falsy [of "str ''not a date''" "str ''not''" "str ''a''" "str ''date''" "[]"]
    by (simp add: e_splits)
  then show ?thesis
    by (simp add: parseDate_Some e_trims e_nonempty host_fields iso_examples)
qed

lemma e_none: "parseDate f h None = None"
  by (simp add: parseDate_def)

lemma e_cal:
  "dayOf (1710300000000 + 19800000) = 19795"
  "makeDay (yearFromTime (1710300000000 + 19800000)) (monthFromTime (1710300000000 + 19800000)) 1
     = 19783"
  "makeDay (yearFromTime (1710300000000 + 19800000))
     (monthFromTime (1710300000000 + 19800000) + 1) 1 = 19814"
  by (simp_all add: yearFromTime_def yearFromDay_def dayOf_def dayFromYear_def monthFromTime_def
      monthFromDay_def dayWithinYear_def inLeapYear_def makeDay_def monthStart_def msPerDay_def
      Let_def)

lemma e_periods:
  "str ''all'' \<noteq> str ''today''" "str ''all'' \<noteq> str ''this_week''"
  "str ''all'' \<noteq> str ''this_month''" "str ''this_week'' \<noteq> str ''today''"
  "str ''this_month'' \<noteq> str ''today''" "str ''this_month'' \<noteq> str ''this_week''"
  by (simp_all add: str_def)

theorem filterByPeriod_windows_witness:
  "filterByPeriod IndexJs exampleHost 1710300000000
      [[BOOKING_DATE \<mapsto> str ''13/03/2024''], [BOOKING_DATE \<mapsto> str ''2024-03-05''],
       [BOOKING_DATE \<mapsto> str ''not a date''], Map.empty] (str ''today'') BOOKING_DATE
     = [[BOOKING_DATE \<mapsto> str ''13/03/2024'']]
   \<and> filterByPeriod IndexJs exampleHost 1710300000000
      [[BOOKING_DATE \<mapsto> str ''13/03/2024''], [BOOKING_DATE \<mapsto> str ''2024-03-05''],
       [BOOKING_DATE \<mapsto> str ''not a date''], Map.empty] (str ''this_week'') BOOKING_DATE
     = [[BOOKING_DATE \<mapsto> str ''13/03/2024'']]
   \<and> filterByPeriod IndexJs exampleHost 1710300000000
      [[BOOKING_DATE \<mapsto> str ''13/03/2024''], [BOOKING_DATE \<mapsto> str ''2024-03-05''],
       [BOOKING_DATE \<mapsto> str ''not a date''], Map.empty] (str ''this_month'') BOOKING_DATE
     = [[BOOKING_DATE \<mapsto> str ''13/03/2024''], [BOOKING_DATE \<mapsto> str ''2024-03-05'']]
   \<and> filterByPeriod IndexJs exampleHost 1710300000000
      [[BOOKING_DATE \<mapsto> str ''13/03/2024''], [BOOKING_DATE \<mapsto> str ''2024-03-05''],
       [BOOKING_DATE \<mapsto> str ''not a date''], Map.empty] (str ''all'') BOOKING_DATE
     = [[BOOKING_DATE \<mapsto> str ''13/03/2024''], [BOOKING_DATE \<mapsto> str ''2024-03-05'']]
   \<and> [BOOKING_DATE \<mapsto> str ''not a date'']
       \<notin> set (filterByPeriod IndexJs exampleHost 1710300000000
                 [[BOOKING_DATE \<mapsto> str ''13/03/2024''], [BOOKING_DATE \<mapsto> str ''2024-03-05''],
                  [BOOKING_DATE \<mapsto> str ''not a date''], Map.empty] (str ''all'') BOOKING_DATE)
   \<and> startOfToday exampleHost 1710300000000 = Some 1710268200000
   \<and> endOfToday exampleHost 1710300000000 = Some 1710354600000
   \<and> oneWeekAgo exampleHost 1710300000000 = Some 1709695200000
   \<and> startOfMonth exampleHost 1710300000000 = Some 1709231400000
   \<and> endOfMonth exampleHost 1710300000000 = Some 1711909800000"
proof -
  let ?rows = "[[BOOKING_DATE \<mapsto> str ''13/03/2024''], [BOOKING_DATE \<mapsto> str ''2024-03-05''],
       [BOOKING_DATE \<mapsto> str ''not a date''], Map.empty]"
  note t = filterByPeriod_windows [of IndexJs exampleHost 1710300000000 ?rows _ BOOKING_DATE
      "[BOOKING_DATE \<mapsto> str ''not a date'']" 0 0 19800000]
  have h: "(\<forall>t u. localTZA exampleHost t u = 19800000) \<and> \<bar>19800000\<bar> \<le> msPerDay
      \<and> 0 \<le> 1710300000000 + (19800000::int)
      \<and> 1710300000000 \<le> 8640000000000000 - 40 * msPerDay"
    by (simp add: host_fields istZone_def msPerDay_def)
  have w: "startOfToday exampleHost 1710300000000 = Some 1710268200000"
    "endOfToday exampleHost 1710300000000 = Some 1710354600000"
    "oneWeekAgo exampleHost 1710300000000 = Some 1709695200000"
    "startOfMonth exampleHost 1710300000000 = Some 1709231400000"
    "endOfMonth exampleHost 1710300000000 = Some 1711909800000"
    using t [of "str ''today''"] h by (simp_all only: e_cal) (simp_all add: msPerDay_def)
  have p: "parseDate IndexJs exampleHost ([BOOKING_DATE \<mapsto> str ''not a date''] BOOKING_DATE) = None"
    by (simp add: e_notadate)
  have n: "[BOOKING_DATE \<mapsto> str ''not a date'']
       \<notin> set (filterByPeriod IndexJs exampleHost 1710300000000 ?rows (str ''all'') BOOKING_DATE)"
    using t [of "str ''all''"] p by blast
  have f1: "filterByPeriod IndexJs exampleHost 1710300000000 ?rows (str ''today'') BOOKING_DATE
     = [[BOOKING_DATE \<mapsto> str ''13/03/2024'']]"
    by (subst t [of "str ''today''", THEN conjunct1])
      (simp add: e_parse e_notadate e_none w notBefore_def before_def period_names_distinct)
  have f2: "filterByPeriod IndexJs exampleHost 1710300000000 ?rows (str ''this_week'') BOOKING_DATE
     = [[BOOKING_DATE \<mapsto> str ''13/03/2024'']]"
    by (subst t [of "str ''this_week''", THEN conjunct1])
      (simp add: e_parse e_notadate e_none w notBefore_def before_def period_names_distinct
        e_periods)
  have f3: "filterByPeriod IndexJs exampleHost 1710300000000 ?rows (str ''this_month'') BOOKING_DATE
     = [[BOOKING_DATE \<mapsto> str ''13/03/2024''], [BOOKING_DATE \<mapsto> str ''2024-03-05'']]"
    by (subst t [of "str ''this_month''", THEN conjunct1])
      (simp add: e_parse e_notadate e_none w notBefore_def before_def period_names_distinct
        e_periods)
  have f4: "filterByPeriod IndexJs exampleHost 1710300000000 ?rows (str ''all'') BOOKING_DATE
     = [[BOOKING_DATE \<mapsto> str ''13/03/2024''], [BOOKING_DATE \<mapsto> str ''2024-03-05'']]"
    by (subst t [of "str ''all''", THEN conjunct1])
      (simp add: e_parse e_notadate e_none w notBefore_def before_def period_names_distinct
        e_periods)
  from f1 f2 f3 f4 n w show ?thesis by (intro conjI)
qed

end
